theory Spec2Isabelle
  imports Main "HOL-Library.Word" "HOL-Library.Monad_Syntax"
begin

unbundle bit_operations_syntax

section \<open>Data model of drivers/cpufreq/cpufreq.c\<close>

text \<open>
  The file is modelled for the configuration of the device it was written for (a four-core
  Tegra 3): \<open>CONFIG_SMP\<close> and \<open>CONFIG_HOTPLUG_CPU\<close> are set, \<open>CONFIG_CPU_FREQ_DEBUG\<close> is
  not, so the two ratelimit helpers are empty. The target is 32-bit ARM: \<open>unsigned int\<close>,
  \<open>size_t\<close> and \<open>ssize_t\<close> are all 32 bits wide. Frequencies are \<open>unsigned int\<close> and
  are compared unsigned, which is the order of \<open>32 word\<close>. Return codes are C \<open>int\<close>s
  and are kept as integers.

  Pointers to policies are addresses into \<open>policy_mem\<close>; \<open>NULL\<close> is \<open>None\<close>. A function
  of the model returns \<open>None\<close> where the C code dereferences \<open>NULL\<close> or hits \<open>BUG_ON\<close>.
\<close>

type_synonym u32 = "32 word"

definition EINVAL :: int where "EINVAL = 22"

text \<open>Constants of include/linux/cpufreq.h, which the file includes.\<close>

definition CPUFREQ_CONST_LOOPS :: u32 where "CPUFREQ_CONST_LOOPS = 2"
definition CPUFREQ_POLICY_POWERSAVE :: u32 where "CPUFREQ_POLICY_POWERSAVE = 1"
definition CPUFREQ_POLICY_PERFORMANCE :: u32 where "CPUFREQ_POLICY_PERFORMANCE = 2"
definition CPUFREQ_NAME_LEN :: nat where "CPUFREQ_NAME_LEN = 16"

datatype gov_event = CPUFREQ_GOV_START | CPUFREQ_GOV_STOP | CPUFREQ_GOV_LIMITS

datatype policy_event = CPUFREQ_ADJUST | CPUFREQ_INCOMPATIBLE | CPUFREQ_NOTIFY | CPUFREQ_START

datatype transition_state =
  CPUFREQ_PRECHANGE | CPUFREQ_POSTCHANGE | CPUFREQ_RESUMECHANGE | CPUFREQ_SUSPENDCHANGE

datatype pm_qos_class = PM_QOS_CPU_FREQ_MIN | PM_QOS_CPU_FREQ_MAX

record cpufreq_cpuinfo =
  max_freq :: u32
  min_freq :: u32
  transition_latency :: u32

text \<open>
  \<open>struct cpufreq_governor\<close> without its callback: the callback takes a policy, and a
  policy refers to its governor, so the callbacks of all governors are one function of the
  state (\<open>governor_fn\<close> below). \<open>owner\<close> is the module of the governor, \<open>None\<close> for a
  governor that is built in. Registered governors have distinct names
  (\<open>cpufreq_register_governor\<close> answers \<open>-EBUSY\<close> otherwise), so equality of these records
  stands for equality of the pointers.
\<close>

record cpufreq_governor =
  name :: string
  max_transition_latency :: u32
  owner :: "nat option"

record cpufreq_real_policy =
  min_u :: u32
  max_u :: u32
  policy_u :: u32
  governor_u :: "cpufreq_governor option"

text \<open>
  \<open>struct cpufreq_policy\<close>. \<open>kobj\<close> is the reference count of the embedded kobject
  (an \<open>atomic_t\<close>) and \<open>kobj_unregister\<close> tells whether the completion of that name
  has been signalled.
\<close>

record cpufreq_policy =
  cpus :: "nat set"
  related_cpus :: "nat set"
  cpu :: nat
  cpuinfo :: cpufreq_cpuinfo
  min_p :: u32
  max_p :: u32
  cur :: u32
  policy_p :: u32
  governor_p :: "cpufreq_governor option"
  user_policy :: cpufreq_real_policy
  kobj :: int
  kobj_unregister :: bool

record cpufreq_freqs =
  f_cpu :: nat
  f_old :: u32
  f_new :: u32
  f_flags :: u32

text \<open>What the core hands to the code around it, in the order in which it does.\<close>

datatype event =
    DrvVerify cpufreq_policy
  | DrvSetpolicy cpufreq_policy
  | DrvGet nat
  | PolicyNotifier policy_event cpufreq_policy
  | TransitionNotifier transition_state cpufreq_freqs
  | GovernorCall cpufreq_governor gov_event cpufreq_policy

text \<open>
  \<open>struct cpufreq_driver\<close>. A callback sees what has happened so far, so it need not
  answer the same way twice. \<open>verify\<close> returns its code and the policy as it leaves it;
  \<open>setpolicy\<close> and \<open>get\<close> may be absent; of \<open>target\<close> only the presence matters here.
\<close>

record cpufreq_driver =
  owner_d :: "nat option"
  flags :: u32
  verify :: "event list \<Rightarrow> cpufreq_policy \<Rightarrow> int \<times> cpufreq_policy"
  setpolicy :: "(event list \<Rightarrow> cpufreq_policy \<Rightarrow> int) option"
  target :: bool
  get :: "(event list \<Rightarrow> nat \<Rightarrow> u32) option"

record cpufreq_state =
  cpufreq_driver :: "cpufreq_driver option"
  cpufreq_cpu_data :: "nat \<Rightarrow> nat option"
  policy_mem :: "nat \<Rightarrow> cpufreq_policy option"
  cpufreq_policy_notifier_list :: "event list \<Rightarrow> policy_event \<Rightarrow> cpufreq_policy \<Rightarrow> cpufreq_policy"
  governor_fn :: "event list \<Rightarrow> cpufreq_governor \<Rightarrow> cpufreq_policy \<Rightarrow> gov_event \<Rightarrow> int"
  gov_performance :: "cpufreq_governor option"
  cpufreq_governor_list :: "cpufreq_governor list"
  modprobe :: "string \<Rightarrow> int \<times> cpufreq_governor list"
  nr_cpu_ids :: nat
  cpu_online_mask :: "nat set"
  cpu_present_mask :: "nat list"
  module_live :: "nat \<Rightarrow> bool"
  module_refcnt :: "nat \<Rightarrow> int"
  qos_cpu_freq_min :: int
  qos_cpu_freq_max :: int
  irqs_disabled :: bool
  pending_work :: "nat list"
  trace :: "event list"

definition log_event :: "cpufreq_state \<Rightarrow> event \<Rightarrow> cpufreq_state" where
  "log_event s e = s\<lparr>trace := trace s @ [e]\<rparr>"

definition upd_policy :: "cpufreq_state \<Rightarrow> nat \<Rightarrow> (cpufreq_policy \<Rightarrow> cpufreq_policy) \<Rightarrow> cpufreq_state" where
  "upd_policy s a f = s\<lparr>policy_mem := (policy_mem s)(a := map_option f (policy_mem s a))\<rparr>"

subsection \<open>Kernel services the file calls\<close>

text \<open>
  Modelled from the spec: \<open>try_module_get\<close> and \<open>module_put\<close> (kernel/module.c) are not
  part of the file. The spec has a successful \<open>get\<close> pin the driver module and \<open>put\<close> drop
  that reference. Every caller in the file tests the result of \<open>try_module_get\<close>, so the
  pin can fail: it does for a module that is not live (one that is being unloaded), and it
  cannot for an owner of \<open>NULL\<close>, which is code that is built in.
\<close>

definition try_module_get :: "cpufreq_state \<Rightarrow> nat option \<Rightarrow> bool \<times> cpufreq_state" where
  "try_module_get s m =
     (case m of
        None \<Rightarrow> (True, s)
      | Some k \<Rightarrow>
          if module_live s k
          then (True, s\<lparr>module_refcnt := (module_refcnt s)(k := module_refcnt s k + 1)\<rparr>)
          else (False, s))"

definition module_put :: "cpufreq_state \<Rightarrow> nat option \<Rightarrow> cpufreq_state" where
  "module_put s m =
     (case m of
        None \<Rightarrow> s
      | Some k \<Rightarrow> s\<lparr>module_refcnt := (module_refcnt s)(k := module_refcnt s k - 1)\<rparr>)"

text \<open>
  Modelled from the spec: \<open>pm_qos_request\<close> (kernel/pm_qos_params.c) returns the current
  aggregate of a QoS class as an \<open>int\<close>.
\<close>

definition pm_qos_request :: "cpufreq_state \<Rightarrow> pm_qos_class \<Rightarrow> int" where
  "pm_qos_request s c =
     (case c of PM_QOS_CPU_FREQ_MIN \<Rightarrow> qos_cpu_freq_min s | PM_QOS_CPU_FREQ_MAX \<Rightarrow> qos_cpu_freq_max s)"

text \<open>
  \<open>blocking_notifier_call_chain\<close> on \<open>cpufreq_policy_notifier_list\<close>: the subscribers are
  handed the policy and may change it.
\<close>

definition blocking_notifier_call_chain ::
  "cpufreq_state \<Rightarrow> policy_event \<Rightarrow> cpufreq_policy \<Rightarrow> cpufreq_state \<times> cpufreq_policy" where
  "blocking_notifier_call_chain s ev policy =
     (log_event s (PolicyNotifier ev policy), cpufreq_policy_notifier_list s (trace s) ev policy)"

section \<open>Governor dispatch\<close>

text \<open>
  Lines 1969-1983 of \<open>__cpufreq_governor\<close>: pin the governor's module, call the governor,
  and drop the module reference unless a START succeeded. The callback's own effects (it may
  ask the driver for a frequency) pass through other entry points of the file; the dispatch
  uses its return code.
\<close>

definition governor_dispatch ::
  "cpufreq_state \<Rightarrow> nat \<Rightarrow> cpufreq_governor \<Rightarrow> gov_event \<Rightarrow> (int \<times> cpufreq_state) option" where
  "governor_dispatch s a g ev =
     (case try_module_get s (owner g) of
        (False, s1) \<Rightarrow> Some (- EINVAL, s1)
      | (True, s1) \<Rightarrow>
          (case policy_mem s1 a of
             None \<Rightarrow> None
           | Some policy \<Rightarrow>
               let ret = governor_fn s1 (trace s1) g policy ev;
                   s2 = log_event s1 (GovernorCall g ev policy);
                   s3 = (if ev \<noteq> CPUFREQ_GOV_START \<or> ret \<noteq> 0 then module_put s2 (owner g) else s2);
                   s4 = (if ev = CPUFREQ_GOV_STOP \<and> ret = 0 then module_put s3 (owner g) else s3)
               in Some (ret, s4)))"

text \<open>
  \<open>__cpufreq_governor(policy, event)\<close>, the policy given by its address. \<open>gov_performance\<close>
  of the state is \<open>&cpufreq_gov_performance\<close> under \<open>CONFIG_CPU_FREQ_GOV_PERFORMANCE\<close> and
  \<open>None\<close> without it.
\<close>

definition uu_cpufreq_governor ::
  "cpufreq_state \<Rightarrow> nat \<Rightarrow> gov_event \<Rightarrow> (int \<times> cpufreq_state) option" where
  "uu_cpufreq_governor s a ev =
     (case policy_mem s a of
        None \<Rightarrow> None
      | Some policy \<Rightarrow>
          (case governor_p policy of
             None \<Rightarrow> None
           | Some g \<Rightarrow>
               if max_transition_latency g \<noteq> 0
                  \<and> transition_latency (cpuinfo policy) > max_transition_latency g
               then (case gov_performance s of
                       None \<Rightarrow> Some (- EINVAL, s)
                     | Some gov \<Rightarrow>
                         governor_dispatch (upd_policy s a (\<lambda>p. p\<lparr>governor_p := Some gov\<rparr>)) a gov ev)
               else governor_dispatch s a g ev))"

section \<open>The transition engine\<close>

text \<open>Lines 2073-2090 of \<open>__cpufreq_set_policy\<close>: the clamp to the QoS requests.\<close>

definition qos_clamp :: "cpufreq_state \<Rightarrow> cpufreq_policy \<Rightarrow> cpufreq_policy \<Rightarrow> cpufreq_policy" where
  "qos_clamp s data policy =
     (let pmin = min_p policy;
          pmax = max_p policy;
          qmin = min (word_of_int (pm_qos_request s PM_QOS_CPU_FREQ_MIN)) (max_u (user_policy data));
          qmax = max (word_of_int (pm_qos_request s PM_QOS_CPU_FREQ_MAX)) (min_u (user_policy data))
      in policy\<lparr>min_p := max pmin qmin, max_p := min pmax qmax, cpuinfo := cpuinfo data\<rparr>)"

text \<open>
  Lines 2092-2119: the range check against the user's limits, the driver's \<open>verify\<close>, the
  ADJUST and INCOMPATIBLE notifications, \<open>verify\<close> again, and NOTIFY. The result is the
  value of \<open>ret\<close>, the state and the proposed policy; a non-zero \<open>ret\<close> is a jump to
  \<open>error_out\<close>.
\<close>

definition set_policy_validate ::
  "cpufreq_state \<Rightarrow> cpufreq_policy \<Rightarrow> cpufreq_policy \<Rightarrow> (int \<times> cpufreq_state \<times> cpufreq_policy) option" where
  "set_policy_validate s data policy =
     (if min_p policy > max_u (user_policy data) \<or> max_p policy < min_u (user_policy data)
      then Some (- EINVAL, s, policy)
      else
        (case cpufreq_driver s of
           None \<Rightarrow> None
         | Some drv \<Rightarrow>
             let (ret1, p1) = verify drv (trace s) policy;
                 s1 = log_event s (DrvVerify policy)
             in if ret1 \<noteq> 0 then Some (ret1, s1, p1)
                else
                  let (s2, p2) = blocking_notifier_call_chain s1 CPUFREQ_ADJUST p1;
                      (s3, p3) = blocking_notifier_call_chain s2 CPUFREQ_INCOMPATIBLE p2;
                      (ret2, p4) = verify drv (trace s3) p3;
                      s4 = log_event s3 (DrvVerify p3)
                  in if ret2 \<noteq> 0 then Some (ret2, s4, p4)
                     else
                       let (s5, p5) = blocking_notifier_call_chain s4 CPUFREQ_NOTIFY p4
                       in Some (ret2, s5, p5)))"

text \<open>
  Lines 2132-2157, the governor switch: stop the old governor if there is one, install the
  new one and start it; when the start fails, put the old one back (if there is one) and
  start it. The result tells whether the start of the new governor failed.
\<close>

definition governor_switch ::
  "cpufreq_state \<Rightarrow> nat \<Rightarrow> cpufreq_governor option \<Rightarrow> (bool \<times> cpufreq_state) option" where
  "governor_switch s a new_gov =
     do {
       data \<leftarrow> policy_mem s a;
       let old_gov = governor_p data;
       s1 \<leftarrow> (case old_gov of
               None \<Rightarrow> Some s
             | Some og \<Rightarrow> map_option snd (uu_cpufreq_governor s a CPUFREQ_GOV_STOP));
       let s2 = upd_policy s1 a (\<lambda>d. d\<lparr>governor_p := new_gov\<rparr>);
       (r, s3) \<leftarrow> uu_cpufreq_governor s2 a CPUFREQ_GOV_START;
       if r \<noteq> 0
       then (case old_gov of
               None \<Rightarrow> Some (True, s3)
             | Some og \<Rightarrow>
                 map_option (\<lambda>(r', s4). (True, s4))
                   (uu_cpufreq_governor (upd_policy s3 a (\<lambda>d. d\<lparr>governor_p := Some og\<rparr>)) a
                      CPUFREQ_GOV_START))
       else Some (False, s3)
     }"

text \<open>
  Lines 2121-2160: commit the limits, then either hand the policy to a \<open>setpolicy\<close> driver
  or switch the governor and tell it the limits. \<open>ret\<close> is the value the variable has on
  entry.
\<close>

definition set_policy_commit ::
  "cpufreq_state \<Rightarrow> nat \<Rightarrow> cpufreq_driver \<Rightarrow> cpufreq_policy \<Rightarrow> int \<Rightarrow> (int \<times> cpufreq_state) option" where
  "set_policy_commit s a drv policy ret =
     (let s1 = upd_policy s a (\<lambda>d. d\<lparr>min_p := min_p policy, max_p := max_p policy\<rparr>)
      in case setpolicy drv of
           Some f \<Rightarrow>
             let s2 = upd_policy s1 a (\<lambda>d. d\<lparr>policy_p := policy_p policy\<rparr>)
             in Some (f (trace s2) policy, log_event s2 (DrvSetpolicy policy))
         | None \<Rightarrow>
             do {
               data \<leftarrow> policy_mem s1 a;
               (failed, s2) \<leftarrow>
                 (if governor_p policy \<noteq> governor_p data
                  then governor_switch s1 a (governor_p policy)
                  else Some (False, s1));
               if failed then Some (- EINVAL, s2)
               else do {
                 (r, s3) \<leftarrow> uu_cpufreq_governor s2 a CPUFREQ_GOV_LIMITS;
                 Some (ret, s3)
               }
             })"

text \<open>
  Lines 2092-2160 of \<open>__cpufreq_set_policy\<close>, from the range check to the label
  \<open>error_out\<close>: everything the function does with the clamped proposal.
\<close>

definition set_policy_checked ::
  "cpufreq_state \<Rightarrow> nat \<Rightarrow> cpufreq_policy \<Rightarrow> cpufreq_policy \<Rightarrow> (int \<times> cpufreq_state \<times> cpufreq_policy) option" where
  "set_policy_checked s a data policy =
     do {
       (ret, s1, p1) \<leftarrow> set_policy_validate s data policy;
       if ret \<noteq> 0 then Some (ret, s1, p1)
       else
         (case cpufreq_driver s1 of
            None \<Rightarrow> None
          | Some drv \<Rightarrow> map_option (\<lambda>(r, s2). (r, s2, p1)) (set_policy_commit s1 a drv p1 ret))
     }"

text \<open>
  \<open>__cpufreq_set_policy(data, policy)\<close>: \<open>data\<close> is the address of the live policy,
  \<open>policy\<close> the caller's proposal, which is returned as the call leaves it. Every path
  ends at \<open>error_out\<close>, where the proposal gets its \<open>min\<close> and \<open>max\<close> back.
\<close>

definition uu_cpufreq_set_policy ::
  "cpufreq_state \<Rightarrow> nat \<Rightarrow> cpufreq_policy \<Rightarrow> (int \<times> cpufreq_state \<times> cpufreq_policy) option" where
  "uu_cpufreq_set_policy s a policy =
     (case policy_mem s a of
        None \<Rightarrow> None
      | Some data \<Rightarrow>
          let pmin = min_p policy;
              pmax = max_p policy
          in map_option (\<lambda>(ret, s', p'). (ret, s', p'\<lparr>min_p := pmin, max_p := pmax\<rparr>))
               (set_policy_checked s a data (qos_clamp s data policy)))"

section \<open>The policy table and its references\<close>

text \<open>
  \<open>kobject_get\<close> and \<open>kobject_put\<close> on the kobject of the policy at an address. The
  release function of the kobject type is \<open>cpufreq_sysfs_release\<close>, which completes
  \<open>kobj_unregister\<close>; it runs when the count reaches zero.
\<close>

definition kobject_get :: "cpufreq_state \<Rightarrow> nat \<Rightarrow> cpufreq_state" where
  "kobject_get s a = upd_policy s a (\<lambda>p. p\<lparr>kobj := kobj p + 1\<rparr>)"

definition cpufreq_sysfs_release :: "cpufreq_policy \<Rightarrow> cpufreq_policy" where
  "cpufreq_sysfs_release p = p\<lparr>kobj_unregister := True\<rparr>"

definition kobject_put :: "cpufreq_state \<Rightarrow> nat \<Rightarrow> cpufreq_state" where
  "kobject_put s a =
     upd_policy s a
       (\<lambda>p. if kobj p - 1 = 0 then cpufreq_sysfs_release (p\<lparr>kobj := kobj p - 1\<rparr>)
            else p\<lparr>kobj := kobj p - 1\<rparr>)"

text \<open>
  \<open>cpufreq_cpu_get(cpu)\<close>: the address of the policy of the CPU, or \<open>None\<close> for
  \<open>NULL\<close>. \<open>kobject_get\<close> returns the address of the kobject it is given, which is
  inside the policy and never \<open>NULL\<close>, so the test of its result never fails.
\<close>

definition cpufreq_cpu_get :: "cpufreq_state \<Rightarrow> nat \<Rightarrow> nat option \<times> cpufreq_state" where
  "cpufreq_cpu_get s c =
     (if c \<ge> nr_cpu_ids s then (None, s)
      else
        (case cpufreq_driver s of
           None \<Rightarrow> (None, s)
         | Some drv \<Rightarrow>
             (case try_module_get s (owner_d drv) of
                (False, s1) \<Rightarrow> (None, s1)
              | (True, s1) \<Rightarrow>
                  (case cpufreq_cpu_data s1 c of
                     None \<Rightarrow> (None, module_put s1 (owner_d drv))
                   | Some a \<Rightarrow> (Some a, kobject_get s1 a)))))"

text \<open>\<open>cpufreq_cpu_put(data)\<close>.\<close>

definition cpufreq_cpu_put :: "cpufreq_state \<Rightarrow> nat \<Rightarrow> cpufreq_state option" where
  "cpufreq_cpu_put s a =
     (case policy_mem s a of
        None \<Rightarrow> None
      | Some p \<Rightarrow>
          (case cpufreq_driver s of
             None \<Rightarrow> None
           | Some drv \<Rightarrow> Some (module_put (kobject_put s a) (owner_d drv))))"

section \<open>Frequency transitions\<close>

text \<open>
  \<open>srcu_notifier_call_chain\<close> on \<open>cpufreq_transition_notifier_list\<close>: the subscribers
  are told the phase and the record.
\<close>

definition srcu_notifier_call_chain ::
  "cpufreq_state \<Rightarrow> transition_state \<Rightarrow> cpufreq_freqs \<Rightarrow> cpufreq_state" where
  "srcu_notifier_call_chain s st freqs = log_event s (TransitionNotifier st freqs)"

text \<open>
  \<open>cpufreq_notify_transition(freqs, state)\<close>; the record is returned as the call leaves
  it. Under \<open>CONFIG_SMP\<close> \<open>adjust_jiffies\<close> is empty. A state other than PRECHANGE and
  POSTCHANGE falls through the \<open>switch\<close>.
\<close>

definition cpufreq_notify_transition ::
  "cpufreq_state \<Rightarrow> cpufreq_freqs \<Rightarrow> transition_state \<Rightarrow> (cpufreq_state \<times> cpufreq_freqs) option" where
  "cpufreq_notify_transition s freqs st =
     (if irqs_disabled s then None
      else
        (case cpufreq_driver s of
           None \<Rightarrow> None
         | Some drv \<Rightarrow>
             let freqs1 = freqs\<lparr>f_flags := flags drv\<rparr>;
                 policy = cpufreq_cpu_data s (f_cpu freqs1)
             in case st of
                  CPUFREQ_PRECHANGE \<Rightarrow>
                    (if (flags drv AND CPUFREQ_CONST_LOOPS) = 0
                     then (case policy of
                             None \<Rightarrow> Some (srcu_notifier_call_chain s CPUFREQ_PRECHANGE freqs1, freqs1)
                           | Some a \<Rightarrow>
                               (case policy_mem s a of
                                  None \<Rightarrow> None
                                | Some p \<Rightarrow>
                                    let freqs2 =
                                          (if cpu p = f_cpu freqs1 \<and> cur p \<noteq> 0 \<and> cur p \<noteq> f_old freqs1
                                           then freqs1\<lparr>f_old := cur p\<rparr> else freqs1)
                                    in Some (srcu_notifier_call_chain s CPUFREQ_PRECHANGE freqs2, freqs2)))
                     else Some (srcu_notifier_call_chain s CPUFREQ_PRECHANGE freqs1, freqs1))
                | CPUFREQ_POSTCHANGE \<Rightarrow>
                    (let s1 = srcu_notifier_call_chain s CPUFREQ_POSTCHANGE freqs1
                     in case policy of
                          None \<Rightarrow> Some (s1, freqs1)
                        | Some a \<Rightarrow>
                            (case policy_mem s1 a of
                               None \<Rightarrow> None
                             | Some p \<Rightarrow>
                                 if cpu p = f_cpu freqs1
                                 then Some (upd_policy s1 a (\<lambda>p. p\<lparr>cur := f_new freqs1\<rparr>), freqs1)
                                 else Some (s1, freqs1)))
                | _ \<Rightarrow> Some (s, freqs1)))"

text \<open>
  \<open>cpufreq_out_of_sync(cpu, old_freq, new_freq)\<close>. The \<open>flags\<close> of the local record are
  not initialised; \<open>cpufreq_notify_transition\<close> sets them before anything reads them.
\<close>

definition cpufreq_out_of_sync :: "cpufreq_state \<Rightarrow> nat \<Rightarrow> u32 \<Rightarrow> u32 \<Rightarrow> cpufreq_state option" where
  "cpufreq_out_of_sync s c old_freq new_freq =
     do {
       (s1, freqs1) \<leftarrow>
         cpufreq_notify_transition s
           \<lparr>f_cpu = c, f_old = old_freq, f_new = new_freq, f_flags = 0\<rparr> CPUFREQ_PRECHANGE;
       (s2, freqs2) \<leftarrow> cpufreq_notify_transition s1 freqs1 CPUFREQ_POSTCHANGE;
       Some s2
     }"

text \<open>
  Modelled from the spec: \<open>schedule_work\<close> (kernel/workqueue.c) enqueues the deferred
  update of a policy, which is \<open>handle_update\<close> by the \<open>INIT_WORK\<close> of \<open>cpufreq_add_dev\<close>;
  work that is already pending is not queued a second time.
\<close>

definition schedule_work :: "cpufreq_state \<Rightarrow> nat \<Rightarrow> cpufreq_state" where
  "schedule_work s a =
     (if a \<in> set (pending_work s) then s else s\<lparr>pending_work := pending_work s @ [a]\<rparr>)"

text \<open>
  \<open>__cpufreq_get(cpu)\<close>: the frequency the driver reports and the state. The condition
  of the source is evaluated left to right, so the policy is read only when the driver's
  answer is not zero.
\<close>

definition uu_cpufreq_get :: "cpufreq_state \<Rightarrow> nat \<Rightarrow> (u32 \<times> cpufreq_state) option" where
  "uu_cpufreq_get s c =
     (case cpufreq_driver s of
        None \<Rightarrow> None
      | Some drv \<Rightarrow>
          (case get drv of
             None \<Rightarrow> Some (0, s)
           | Some f \<Rightarrow>
               let ret_freq = f (trace s) c;
                   s1 = log_event s (DrvGet c)
               in if ret_freq = 0 then Some (ret_freq, s1)
                  else
                    (case cpufreq_cpu_data s1 c of
                       None \<Rightarrow> None
                     | Some a \<Rightarrow>
                         (case policy_mem s1 a of
                            None \<Rightarrow> None
                          | Some policy \<Rightarrow>
                              if cur policy \<noteq> 0 \<and> (flags drv AND CPUFREQ_CONST_LOOPS) = 0
                                 \<and> ret_freq \<noteq> cur policy
                              then do {
                                     s2 \<leftarrow> cpufreq_out_of_sync s1 c (cur policy) ret_freq;
                                     Some (ret_freq, schedule_work s2 a)
                                   }
                              else Some (ret_freq, s1)))))"

section \<open>The attribute surface\<close>

text \<open>
  Modelled from the spec: \<open>strnicmp\<close> (lib/string.c) is not part of the file. It compares
  two names without regard to the case of ASCII letters over at most \<open>len\<close> characters
  and returns 0 when they agree. Names are the characters before the terminating NUL. An
  upper-case letter (codes 65 to 90) becomes the lower-case one by setting the bit of
  value 32.
\<close>

definition tolower :: "char \<Rightarrow> char" where
  "tolower ch =
     (case ch of
        Char b0 b1 b2 b3 b4 b5 b6 b7 \<Rightarrow>
          if 65 \<le> (of_char ch :: nat) \<and> (of_char ch :: nat) \<le> 90
          then Char b0 b1 b2 b3 b4 True b6 b7 else ch)"

definition strnicmp :: "string \<Rightarrow> string \<Rightarrow> nat \<Rightarrow> int" where
  "strnicmp s1 s2 len = (if map tolower (take len s1) = map tolower (take len s2) then 0 else 1)"

text \<open>\<open>__find_governor(str_governor)\<close>: the first governor of the list with that name.\<close>

definition uu_find_governor :: "cpufreq_state \<Rightarrow> string \<Rightarrow> cpufreq_governor option" where
  "uu_find_governor s str_governor =
     find (\<lambda>t. strnicmp str_governor (name t) CPUFREQ_NAME_LEN = 0) (cpufreq_governor_list s)"

text \<open>\<open>cpufreq_register_governor(governor)\<close>, for a governor that is not \<open>NULL\<close>.\<close>

definition EBUSY :: int where "EBUSY = 16"

definition cpufreq_register_governor :: "cpufreq_state \<Rightarrow> cpufreq_governor \<Rightarrow> int \<times> cpufreq_state" where
  "cpufreq_register_governor s governor =
     (if uu_find_governor s (name governor) = None
      then (0, s\<lparr>cpufreq_governor_list := governor # cpufreq_governor_list s\<rparr>)
      else (- EBUSY, s))"

text \<open>
  Modelled from the spec: \<open>request_module\<close> (kernel/kmod.c) is not part of the file. It
  tries to load the named module and returns 0 on success; a governor module registers its
  governors while it is loaded. \<open>modprobe\<close> of the state says, for a module name, what
  the call returns and which governors the module registers.
\<close>

definition request_module :: "cpufreq_state \<Rightarrow> string \<Rightarrow> int \<times> cpufreq_state" where
  "request_module s module_name =
     (fst (modprobe s module_name),
      fold (\<lambda>g s'. snd (cpufreq_register_governor s' g)) (snd (modprobe s module_name)) s)"

text \<open>
  \<open>cpufreq_parse_governor(str_governor, &policy, &governor)\<close>: the error code, the state,
  and the two variables the pointers refer to as the call leaves them.
\<close>

definition cpufreq_parse_governor ::
  "cpufreq_state \<Rightarrow> string \<Rightarrow> u32 \<Rightarrow> cpufreq_governor option
     \<Rightarrow> int \<times> cpufreq_state \<times> u32 \<times> cpufreq_governor option" where
  "cpufreq_parse_governor s str_governor pol gov =
     (case cpufreq_driver s of
        None \<Rightarrow> (- EINVAL, s, pol, gov)
      | Some drv \<Rightarrow>
          if setpolicy drv \<noteq> None
          then (if strnicmp str_governor ''performance'' CPUFREQ_NAME_LEN = 0
                then (0, s, CPUFREQ_POLICY_PERFORMANCE, gov)
                else if strnicmp str_governor ''powersave'' CPUFREQ_NAME_LEN = 0
                then (0, s, CPUFREQ_POLICY_POWERSAVE, gov)
                else (- EINVAL, s, pol, gov))
          else if target drv
          then (case uu_find_governor s str_governor of
                  Some t \<Rightarrow> (0, s, pol, Some t)
                | None \<Rightarrow>
                    let (ret, s1) = request_module s (''cpufreq_'' @ str_governor)
                    in (case (if ret = 0 then uu_find_governor s1 str_governor else None) of
                          Some t \<Rightarrow> (0, s1, pol, Some t)
                        | None \<Rightarrow> (- EINVAL, s1, pol, gov)))
          else (- EINVAL, s, pol, gov))"

text \<open>
  \<open>cpufreq_get_policy(&policy, cpu)\<close> for a destination that is not \<open>NULL\<close>: the
  return code, the state and, on success, the copy that \<open>memcpy\<close> made.
\<close>

definition cpufreq_get_policy ::
  "cpufreq_state \<Rightarrow> nat \<Rightarrow> (int \<times> cpufreq_state \<times> cpufreq_policy option) option" where
  "cpufreq_get_policy s c =
     (case cpufreq_cpu_get s c of
        (None, s1) \<Rightarrow> Some (- EINVAL, s1, None)
      | (Some a, s1) \<Rightarrow>
          (case policy_mem s1 a of
             None \<Rightarrow> None
           | Some cpu_policy \<Rightarrow>
               map_option (\<lambda>s2. (0, s2, Some cpu_policy)) (cpufreq_cpu_put s1 a)))"

text \<open>
  The macro \<open>store_one(file_name, object)\<close>. \<open>put\<close> writes \<open>object\<close> of a policy,
  \<open>obj\<close> reads it, and \<open>put_user\<close> writes \<open>object\<close> of a \<open>user_policy\<close>. The
  policy is given by its address; \<open>scanned\<close> is what \<open>sscanf(buf, "%u", ...)\<close> converted,
  \<open>None\<close> when it converted nothing. The value returned goes through
  \<open>unsigned int ret\<close> to \<open>ssize_t\<close>, both 32 bits wide, which leaves it as it is.
\<close>

definition store_one ::
  "(cpufreq_policy \<Rightarrow> u32 \<Rightarrow> cpufreq_policy) \<Rightarrow> (cpufreq_policy \<Rightarrow> u32)
     \<Rightarrow> (cpufreq_real_policy \<Rightarrow> u32 \<Rightarrow> cpufreq_real_policy)
     \<Rightarrow> cpufreq_state \<Rightarrow> nat \<Rightarrow> u32 option \<Rightarrow> int \<Rightarrow> (int \<times> cpufreq_state) option" where
  "store_one put obj put_user s a scanned count =
     do {
       policy \<leftarrow> policy_mem s a;
       (ret, s1, copy) \<leftarrow> cpufreq_get_policy s (cpu policy);
       (case copy of
          None \<Rightarrow> Some (- EINVAL, s1)
        | Some new_policy \<Rightarrow>
            (case scanned of
               None \<Rightarrow> Some (- EINVAL, s1)
             | Some v \<Rightarrow>
                 do {
                   (ret2, s2, new_policy2) \<leftarrow> uu_cpufreq_set_policy s1 a (put new_policy v);
                   let s3 = upd_policy s2 a
                              (\<lambda>p. p\<lparr>user_policy := put_user (user_policy p) (obj new_policy2)\<rparr>);
                   Some (if ret2 \<noteq> 0 then ret2 else count, s3)
                 }))
     }"

definition store_scaling_min_freq ::
  "cpufreq_state \<Rightarrow> nat \<Rightarrow> u32 option \<Rightarrow> int \<Rightarrow> (int \<times> cpufreq_state) option" where
  "store_scaling_min_freq =
     store_one (\<lambda>p v. p\<lparr>min_p := v\<rparr>) min_p (\<lambda>u v. u\<lparr>min_u := v\<rparr>)"

definition store_scaling_max_freq ::
  "cpufreq_state \<Rightarrow> nat \<Rightarrow> u32 option \<Rightarrow> int \<Rightarrow> (int \<times> cpufreq_state) option" where
  "store_scaling_max_freq =
     store_one (\<lambda>p v. p\<lparr>max_p := v\<rparr>) max_p (\<lambda>u v. u\<lparr>max_u := v\<rparr>)"

text \<open>
  The loop of \<open>store_scaling_governor\<close> over the present CPUs, in ascending order. Each
  round that gets a copy overwrites \<open>new_policy\<close> as a whole, so the variable need not be
  carried from round to round.
\<close>

fun store_scaling_governor_loop ::
  "cpufreq_state \<Rightarrow> nat \<Rightarrow> string \<Rightarrow> nat list \<Rightarrow> cpufreq_state option" where
  "store_scaling_governor_loop s a str_governor [] = Some s"
| "store_scaling_governor_loop s a str_governor (c # cs) =
     (case cpufreq_get_policy s c of
        None \<Rightarrow> None
      | Some (ret, s1, copy) \<Rightarrow>
          (case copy of
             None \<Rightarrow> store_scaling_governor_loop s1 a str_governor cs
           | Some new_policy \<Rightarrow>
               (case cpufreq_parse_governor s1 str_governor (policy_p new_policy) (governor_p new_policy) of
                  (err, s2, pol, gov) \<Rightarrow>
                    if err \<noteq> 0 then store_scaling_governor_loop s2 a str_governor cs
                    else
                      (case uu_cpufreq_set_policy s2 a (new_policy\<lparr>policy_p := pol, governor_p := gov\<rparr>) of
                         None \<Rightarrow> None
                       | Some (ret2, s3, new_policy2) \<Rightarrow>
                           store_scaling_governor_loop
                             (upd_policy s3 a
                                (\<lambda>p. p\<lparr>user_policy :=
                                        (user_policy p)\<lparr>policy_u := policy_p p, governor_u := governor_p p\<rparr>\<rparr>))
                             a str_governor cs))))"

text \<open>
  \<open>store_scaling_governor(policy, buf, count)\<close>; \<open>scanned\<close> is what
  \<open>sscanf(buf, "%15s", str_governor)\<close> converted, \<open>None\<close> when it converted nothing.
\<close>

definition store_scaling_governor ::
  "cpufreq_state \<Rightarrow> nat \<Rightarrow> string option \<Rightarrow> int \<Rightarrow> (int \<times> cpufreq_state) option" where
  "store_scaling_governor s a scanned count =
     (case scanned of
        None \<Rightarrow> Some (- EINVAL, s)
      | Some str_governor \<Rightarrow>
          map_option (\<lambda>s'. (count, s'))
            (store_scaling_governor_loop s a str_governor (cpu_present_mask s)))"

section \<open>Attachment\<close>

text \<open>
  \<open>cpufreq_add_dev(sys_dev)\<close> for the CPU \<open>sys_dev->id\<close>, from its entry to line 1327:
  the test for an offline CPU, the test whether the CPU already has a policy, and the pin
  of the driver's module. From line 1329 on the function allocates and initialises a new
  policy through the driver and sysfs; \<open>Allocating\<close> stands for reaching that point.
\<close>

datatype add_dev_progress = Returned int cpufreq_state | Allocating cpufreq_state

definition cpufreq_add_dev :: "cpufreq_state \<Rightarrow> nat \<Rightarrow> add_dev_progress option" where
  "cpufreq_add_dev s c =
     (if c \<notin> cpu_online_mask s then Some (Returned 0 s)
      else
        (case cpufreq_cpu_get s c of
           (Some a, s1) \<Rightarrow> map_option (Returned 0) (cpufreq_cpu_put s1 a)
         | (None, s1) \<Rightarrow>
             (case cpufreq_driver s1 of
                None \<Rightarrow> None
              | Some drv \<Rightarrow>
                  (case try_module_get s1 (owner_d drv) of
                     (False, s2) \<Rightarrow> Some (Returned (- EINVAL) s2)
                   | (True, s2) \<Rightarrow> Some (Allocating s2)))))"

section \<open>Auxiliary notions for the proofs\<close>

text \<open>The committed limits of the policy at an address are the same in two states.\<close>

definition same_limits :: "cpufreq_state \<Rightarrow> cpufreq_state \<Rightarrow> nat \<Rightarrow> bool" where
  "same_limits s s' a =
     (map_option min_p (policy_mem s' a) = map_option min_p (policy_mem s a)
      \<and> map_option max_p (policy_mem s' a) = map_option max_p (policy_mem s a))"

text \<open>
  Every present CPU that has a policy refers to a live policy that holds at least one
  reference (the one of its attribute surface).
\<close>

definition attached_held :: "cpufreq_state \<Rightarrow> bool" where
  "attached_held s =
     (\<forall>c \<in> set (cpu_present_mask s).
        case cpufreq_cpu_data s c of
          None \<Rightarrow> True
        | Some a \<Rightarrow> (case policy_mem s a of None \<Rightarrow> False | Some p \<Rightarrow> kobj p \<noteq> 0))"

text \<open>
  A governor name is unknown: a \<open>setpolicy\<close> driver knows only the two fixed names; with
  a \<open>target\<close> driver no registered governor has the name and no module registers one.
\<close>

definition unknown_governor :: "cpufreq_state \<Rightarrow> string \<Rightarrow> bool" where
  "unknown_governor s str_governor =
     (case cpufreq_driver s of
        None \<Rightarrow> True
      | Some drv \<Rightarrow>
          if setpolicy drv \<noteq> None
          then strnicmp str_governor ''performance'' CPUFREQ_NAME_LEN \<noteq> 0
               \<and> strnicmp str_governor ''powersave'' CPUFREQ_NAME_LEN \<noteq> 0
          else if target drv
          then uu_find_governor s str_governor = None
               \<and> snd (modprobe s (''cpufreq_'' @ str_governor)) = []
          else True)"

section \<open>A sample system\<close>

text \<open>
  Two online CPUs of four share one policy, at address 7, owned by CPU 0; the hardware
  window is 200000 to 2000000 kHz, the user asked for 800000 to 2000000, and a QoS request
  asks for at least 1200000.
\<close>

definition sample_cpuinfo :: cpufreq_cpuinfo where
  "sample_cpuinfo = \<lparr>max_freq = 2000000, min_freq = 200000, transition_latency = 10000\<rparr>"

definition sample_governor :: cpufreq_governor where
  "sample_governor = \<lparr>name = ''interactive'', max_transition_latency = 0, owner = Some 1\<rparr>"

definition sample_performance :: cpufreq_governor where
  "sample_performance = \<lparr>name = ''performance'', max_transition_latency = 0, owner = None\<rparr>"

definition sample_strict :: cpufreq_governor where
  "sample_strict = \<lparr>name = ''strict'', max_transition_latency = 1000, owner = Some 2\<rparr>"

definition sample_broken :: cpufreq_governor where
  "sample_broken = \<lparr>name = ''broken'', max_transition_latency = 0, owner = Some 3\<rparr>"

definition sample_policy :: cpufreq_policy where
  "sample_policy =
     \<lparr>cpus = {0, 1}, related_cpus = {0, 1}, cpu = 0, cpuinfo = sample_cpuinfo,
      min_p = 800000, max_p = 2000000, cur = 1000000, policy_p = 0,
      governor_p = Some sample_governor,
      user_policy = \<lparr>min_u = 800000, max_u = 2000000, policy_u = 0, governor_u = Some sample_governor\<rparr>,
      kobj = 3, kobj_unregister = False\<rparr>"

definition sample_driver :: cpufreq_driver where
  "sample_driver =
     \<lparr>owner_d = Some 0, flags = 0, verify = (\<lambda>t p. (0, p)), setpolicy = None, target = True,
      get = Some (\<lambda>t c. 800000)\<rparr>"

definition sample_state :: cpufreq_state where
  "sample_state =
     \<lparr>cpufreq_driver = Some sample_driver,
      cpufreq_cpu_data = (\<lambda>c. if c < 2 then Some 7 else None),
      policy_mem = (\<lambda>a. if a = 7 then Some sample_policy else None),
      cpufreq_policy_notifier_list = (\<lambda>t e p. p),
      governor_fn = (\<lambda>t g p e. if name g = ''broken'' then - 5 else 0),
      gov_performance = Some sample_performance,
      cpufreq_governor_list = [sample_governor, sample_performance, sample_strict, sample_broken],
      modprobe = (\<lambda>n. (- 2, [])),
      nr_cpu_ids = 4,
      cpu_online_mask = {0, 1},
      cpu_present_mask = [0, 1, 2, 3],
      module_live = (\<lambda>m. True),
      module_refcnt = (\<lambda>m. 1),
      qos_cpu_freq_min = 1200000,
      qos_cpu_freq_max = 2147483647,
      irqs_disabled = False,
      pending_work = [],
      trace = []\<rparr>"

text \<open>What the validation of a proposal hands out when nobody objects.\<close>

definition sample_validation :: "cpufreq_policy \<Rightarrow> event list" where
  "sample_validation p =
     [DrvVerify p, PolicyNotifier CPUFREQ_ADJUST p, PolicyNotifier CPUFREQ_INCOMPATIBLE p,
      DrvVerify p, PolicyNotifier CPUFREQ_NOTIFY p]"

text \<open>The sample system with a driver whose \<open>get\<close> answers 0, as a driver does on failure.\<close>

definition sample_silent :: cpufreq_state where
  "sample_silent = sample_state\<lparr>cpufreq_driver := Some (sample_driver\<lparr>get := Some (\<lambda>t c. 0)\<rparr>)\<rparr>"

text \<open>The sample system while the module of its driver is being unloaded.\<close>

definition sample_unloading :: cpufreq_state where
  "sample_unloading = sample_state\<lparr>module_live := (\<lambda>m. m \<noteq> 0)\<rparr>"

text \<open>
  The sample system as \<open>cpufreq_add_dev_interface\<close> leaves it before the first call of
  the engine (line 1266): the live policy has no governor.
\<close>

definition sample_attaching :: cpufreq_state where
  "sample_attaching = upd_policy sample_state 7 (\<lambda>p. p\<lparr>governor_p := None\<rparr>)"

section \<open>Properties\<close>

lemmas sample_defs = sample_state_def sample_policy_def sample_driver_def sample_governor_def
  sample_performance_def sample_cpuinfo_def sample_strict_def sample_broken_def
  sample_validation_def sample_silent_def sample_unloading_def sample_attaching_def

lemmas engine_defs = uu_cpufreq_set_policy_def set_policy_checked_def set_policy_validate_def
  set_policy_commit_def governor_switch_def uu_cpufreq_governor_def governor_dispatch_def
  try_module_get_def module_put_def blocking_notifier_call_chain_def log_event_def upd_policy_def
  qos_clamp_def pm_qos_request_def Let_def EINVAL_def


subsection \<open>What governor events and the commit leave alone\<close>

lemma governor_dispatch_limits:
  "governor_dispatch s a g ev = Some (r, s') \<Longrightarrow> same_limits s s' a"
  by (auto simp: governor_dispatch_def same_limits_def try_module_get_def module_put_def log_event_def Let_def
           split: option.splits if_splits prod.splits)

lemma governor_limits:
  "uu_cpufreq_governor s a ev = Some (r, s') \<Longrightarrow> same_limits s s' a"
  by (auto simp: uu_cpufreq_governor_def upd_policy_def same_limits_def
           dest!: governor_dispatch_limits
           split: option.splits if_splits)

lemma same_limits_trans: "same_limits s s' a \<Longrightarrow> same_limits s' s'' a \<Longrightarrow> same_limits s s'' a"
  by (simp add: same_limits_def)

lemma same_limits_gov_upd: "same_limits s (upd_policy s a (\<lambda>d. d\<lparr>governor_p := g\<rparr>)) a"
  by (cases "policy_mem s a") (simp_all add: same_limits_def upd_policy_def)

lemma governor_switch_limits:
  assumes "governor_switch s a g = Some (f, s')"
  shows "same_limits s s' a"
proof -
  from assms obtain data s1 r s3 where
    d: "policy_mem s a = Some data"
    and s1: "(case governor_p data of None \<Rightarrow> Some s
              | Some og \<Rightarrow> map_option snd (uu_cpufreq_governor s a CPUFREQ_GOV_STOP)) = Some s1"
    and s3: "uu_cpufreq_governor (upd_policy s1 a (\<lambda>d. d\<lparr>governor_p := g\<rparr>)) a CPUFREQ_GOV_START = Some (r, s3)"
    and fin: "(if r \<noteq> 0
       then (case governor_p data of
               None \<Rightarrow> Some (True, s3)
             | Some og \<Rightarrow>
                 map_option (\<lambda>(r', s4). (True, s4))
                   (uu_cpufreq_governor (upd_policy s3 a (\<lambda>d. d\<lparr>governor_p := Some og\<rparr>)) a
                      CPUFREQ_GOV_START))
       else Some (False, s3)) = Some (f, s')"
    by (auto simp: governor_switch_def Let_def bind_eq_Some_conv)
  have a1: "same_limits s s1 a"
    using s1 by (auto simp: same_limits_def dest!: governor_limits split: option.splits)
  have a2: "same_limits s1 s3 a"
    using governor_limits[OF s3] same_limits_gov_upd[of s1 a g] same_limits_trans by blast
  have a3: "same_limits s3 s' a"
    using fin same_limits_gov_upd[of s3 a]
    by (auto simp: same_limits_def dest!: governor_limits split: option.splits if_splits)
  show ?thesis using a1 a2 a3 same_limits_trans by blast
qed

lemma commit_limits:
  assumes "set_policy_commit s a drv p ret0 = Some (r, s')" and "policy_mem s a = Some data"
  shows "\<exists>d. policy_mem s' a = Some d \<and> min_p d = min_p p \<and> max_p d = max_p p"
proof -
  let ?s1 = "upd_policy s a (\<lambda>d. d\<lparr>min_p := min_p p, max_p := max_p p\<rparr>)"
  have m1: "map_option min_p (policy_mem ?s1 a) = Some (min_p p)"
           "map_option max_p (policy_mem ?s1 a) = Some (max_p p)"
    using assms(2) by (simp_all add: upd_policy_def)
  have "same_limits ?s1 s' a"
  proof (cases "setpolicy drv")
    case (Some f)
    then show ?thesis using assms
      by (auto simp: set_policy_commit_def Let_def same_limits_def upd_policy_def log_event_def)
  next
    case None
    have d1: "policy_mem ?s1 a = Some (data\<lparr>min_p := min_p p, max_p := max_p p\<rparr>)"
      using assms(2) by (simp add: upd_policy_def)
    from assms(1) None d1 show ?thesis
      by (auto simp: set_policy_commit_def Let_def bind_eq_Some_conv same_limits_def
               dest!: governor_switch_limits governor_limits split: if_splits)
  qed
  then show ?thesis using m1 by (auto simp: same_limits_def)
qed

lemma validate_frame:
  "set_policy_validate s data p = Some (r, s1, p1) \<Longrightarrow>
     policy_mem s1 = policy_mem s \<and> cpufreq_driver s1 = cpufreq_driver s"
  by (auto simp: set_policy_validate_def blocking_notifier_call_chain_def log_event_def Let_def
           split: if_splits option.splits prod.splits)

subsection \<open>Governor events always return\<close>

lemma governor_total:
  assumes "policy_mem s a = Some d" and "governor_p d = Some g"
  shows "\<exists>r s' d' g'. uu_cpufreq_governor s a ev = Some (r, s')
           \<and> policy_mem s' a = Some d' \<and> governor_p d' = Some g'
           \<and> cpufreq_driver s' = cpufreq_driver s"
  using assms
  by (auto simp: uu_cpufreq_governor_def governor_dispatch_def try_module_get_def module_put_def
        upd_policy_def log_event_def Let_def split: option.splits)

subsection \<open>A rejected proposal\<close>

lemma validate_only_trace:
  "set_policy_validate s data p = Some (r, s1, p1) \<Longrightarrow> s1 = s\<lparr>trace := trace s1\<rparr>"
  by (auto simp: set_policy_validate_def blocking_notifier_call_chain_def log_event_def Let_def
           split: if_splits option.splits prod.splits)

lemma set_policy_rejected:
  assumes mem: "policy_mem s a = Some data"
    and val: "set_policy_validate s data (qos_clamp s data policy) = Some (ret, s2, p2)"
    and ret: "ret \<noteq> 0"
  shows "uu_cpufreq_set_policy s a policy
           = Some (ret, s\<lparr>trace := trace s2\<rparr>, p2\<lparr>min_p := min_p policy, max_p := max_p policy\<rparr>)"
  using validate_only_trace [OF val] ret
  by (simp add: uu_cpufreq_set_policy_def set_policy_checked_def mem val Let_def)

subsection \<open>References\<close>

lemma kobject_put_count:
  "policy_mem s a = Some p \<Longrightarrow> map_option kobj (policy_mem (kobject_put s a) a) = Some (kobj p - 1)"
  by (simp add: kobject_put_def upd_policy_def cpufreq_sysfs_release_def)

lemma kobject_put_frame:
  "module_refcnt (kobject_put s a) = module_refcnt s
   \<and> cpufreq_cpu_data (kobject_put s a) = cpufreq_cpu_data s
   \<and> cpufreq_driver (kobject_put s a) = cpufreq_driver s"
  by (simp add: kobject_put_def upd_policy_def)

lemma cpu_get_success:
  assumes "cpufreq_cpu_get s c = (Some a, s')"
  shows "\<exists>drv. cpufreq_driver s = Some drv \<and> c < nr_cpu_ids s \<and> cpufreq_cpu_data s c = Some a
           \<and> fst (try_module_get s (owner_d drv))
           \<and> s' = kobject_get (snd (try_module_get s (owner_d drv))) a"
  using assms
  by (auto simp: cpufreq_cpu_get_def try_module_get_def split: option.splits if_splits)

lemma cpu_get_failure:
  assumes "cpufreq_cpu_get s c = (None, s')"
  shows "s' = s"
  using assms
  by (auto simp: cpufreq_cpu_get_def try_module_get_def module_put_def
           split: option.splits if_splits)

lemma cpu_get_null:
  assumes "c \<ge> nr_cpu_ids s \<or> cpufreq_driver s = None \<or> cpufreq_cpu_data s c = None"
  shows "fst (cpufreq_cpu_get s c) = None"
  using assms
  by (auto simp: cpufreq_cpu_get_def try_module_get_def
           split: option.splits if_splits)

lemma get_policy_neutral:
  assumes "cpufreq_cpu_data s c = Some a" and "policy_mem s a = Some p" and "kobj p \<noteq> 0"
  shows "\<exists>r copy. cpufreq_get_policy s c = Some (r, s, copy)
            \<and> (r = 0 \<longrightarrow> copy = Some (p\<lparr>kobj := kobj p + 1\<rparr>))
            \<and> (r \<noteq> 0 \<longrightarrow> copy = None)
            \<and> (r = 0 \<longleftrightarrow> (c < nr_cpu_ids s \<and> (\<exists>drv. cpufreq_driver s = Some drv \<and> fst (try_module_get s (owner_d drv)))))"
  using assms
  by (auto simp: cpufreq_get_policy_def cpufreq_cpu_get_def cpufreq_cpu_put_def try_module_get_def
                 module_put_def kobject_get_def kobject_put_def cpufreq_sysfs_release_def
                 upd_policy_def EINVAL_def map_upd_triv
           split: option.splits)

lemma get_policy_absent:
  assumes "cpufreq_cpu_data s c = None"
  shows "cpufreq_get_policy s c = Some (- EINVAL, s, None)"
  using assms
  by (auto simp: cpufreq_get_policy_def cpufreq_cpu_get_def try_module_get_def module_put_def
           split: option.splits)

subsection \<open>The two phases of a transition\<close>

lemma notify_postchange:
  "cpufreq_notify_transition s freqs CPUFREQ_POSTCHANGE =
     (if irqs_disabled s then None
      else
        (case cpufreq_driver s of
           None \<Rightarrow> None
         | Some drv \<Rightarrow>
             (case cpufreq_cpu_data s (f_cpu freqs) of
                None \<Rightarrow>
                  Some (log_event s (TransitionNotifier CPUFREQ_POSTCHANGE (freqs\<lparr>f_flags := flags drv\<rparr>)),
                        freqs\<lparr>f_flags := flags drv\<rparr>)
              | Some a \<Rightarrow>
                  (case policy_mem s a of
                     None \<Rightarrow> None
                   | Some p \<Rightarrow>
                       if cpu p = f_cpu freqs
                       then Some (upd_policy
                                    (log_event s (TransitionNotifier CPUFREQ_POSTCHANGE (freqs\<lparr>f_flags := flags drv\<rparr>)))
                                    a (\<lambda>p. p\<lparr>cur := f_new freqs\<rparr>),
                                  freqs\<lparr>f_flags := flags drv\<rparr>)
                       else Some (log_event s (TransitionNotifier CPUFREQ_POSTCHANGE (freqs\<lparr>f_flags := flags drv\<rparr>)),
                                  freqs\<lparr>f_flags := flags drv\<rparr>)))))"
  by (simp add: cpufreq_notify_transition_def srcu_notifier_call_chain_def Let_def log_event_def
           split: option.split)

lemma notify_prechange:
  "cpufreq_notify_transition s freqs CPUFREQ_PRECHANGE =
     (if irqs_disabled s then None
      else
        (case cpufreq_driver s of
           None \<Rightarrow> None
         | Some drv \<Rightarrow>
             (if (flags drv AND CPUFREQ_CONST_LOOPS) = 0
              then (case cpufreq_cpu_data s (f_cpu freqs) of
                      None \<Rightarrow>
                        Some (log_event s (TransitionNotifier CPUFREQ_PRECHANGE (freqs\<lparr>f_flags := flags drv\<rparr>)),
                              freqs\<lparr>f_flags := flags drv\<rparr>)
                    | Some a \<Rightarrow>
                        (case policy_mem s a of
                           None \<Rightarrow> None
                         | Some p \<Rightarrow>
                             if cpu p = f_cpu freqs \<and> cur p \<noteq> 0 \<and> cur p \<noteq> f_old freqs
                             then Some (log_event s (TransitionNotifier CPUFREQ_PRECHANGE
                                                       (freqs\<lparr>f_old := cur p, f_flags := flags drv\<rparr>)),
                                        freqs\<lparr>f_old := cur p, f_flags := flags drv\<rparr>)
                             else Some (log_event s (TransitionNotifier CPUFREQ_PRECHANGE (freqs\<lparr>f_flags := flags drv\<rparr>)),
                                        freqs\<lparr>f_flags := flags drv\<rparr>)))
              else Some (log_event s (TransitionNotifier CPUFREQ_PRECHANGE (freqs\<lparr>f_flags := flags drv\<rparr>)),
                         freqs\<lparr>f_flags := flags drv\<rparr>))))"
  by (simp add: cpufreq_notify_transition_def srcu_notifier_call_chain_def Let_def log_event_def
           split: option.split)

lemma out_of_sync_events:
  assumes drv: "cpufreq_driver s = Some drv"
    and tab: "cpufreq_cpu_data s c = Some a" "policy_mem s a = Some policy"
    and irq: "\<not> irqs_disabled s"
    and fr: "fr = \<lparr>f_cpu = c, f_old = cur policy, f_new = freq, f_flags = flags drv\<rparr>"
  shows "cpufreq_out_of_sync s c (cur policy) freq =
           Some (s\<lparr>trace := trace s @ [TransitionNotifier CPUFREQ_PRECHANGE fr,
                                          TransitionNotifier CPUFREQ_POSTCHANGE fr],
                   policy_mem := (policy_mem s)(a \<mapsto> (if cpu policy = c then policy\<lparr>cur := freq\<rparr> else policy))\<rparr>)"
  using assms
  by (simp add: cpufreq_out_of_sync_def notify_prechange notify_postchange log_event_def upd_policy_def
        fun_upd_idem)

subsection \<open>Attribute writes\<close>

lemma parse_unknown:
  assumes "unknown_governor s str"
  shows "cpufreq_parse_governor s str pol gov = (- EINVAL, s, pol, gov)"
  using assms
  by (auto simp: unknown_governor_def cpufreq_parse_governor_def request_module_def Let_def
           split: option.splits if_splits prod.splits)

lemma governor_loop_unknown:
  assumes "unknown_governor s str"
    and "\<forall>c \<in> set cs.
           case cpufreq_cpu_data s c of
             None \<Rightarrow> True
           | Some a \<Rightarrow> (case policy_mem s a of None \<Rightarrow> False | Some p \<Rightarrow> kobj p \<noteq> 0)"
  shows "store_scaling_governor_loop s a str cs = Some s"
  using assms(2)
proof (induction cs)
  case Nil
  show ?case by simp
next
  case (Cons c cs)
  then have rest: "store_scaling_governor_loop s a str cs = Some s" by simp
  show ?case
  proof (cases "cpufreq_cpu_data s c")
    case None
    then show ?thesis by (simp add: get_policy_absent rest)
  next
    case (Some b)
    with Cons.prems obtain p where p: "policy_mem s b = Some p" "kobj p \<noteq> 0"
      by (cases "policy_mem s b") auto
    from get_policy_neutral [OF Some p]
    obtain r copy where g: "cpufreq_get_policy s c = Some (r, s, copy)" by blast
    show ?thesis
      by (cases copy) (simp_all add: g rest parse_unknown [OF assms(1)] EINVAL_def)
  qed
qed

lemma store_governor_unknown:
  assumes "attached_held s" and "unknown_governor s str"
  shows "store_scaling_governor s a (Some str) count = Some (count, s)"
  using governor_loop_unknown [OF assms(2), of "cpu_present_mask s" a] assms(1)
  by (simp add: store_scaling_governor_def attached_held_def)

lemma store_one_rejected:
  assumes mem: "policy_mem s a = Some data"
    and tab: "cpufreq_cpu_data s (cpu data) = Some a"
    and held: "kobj data \<noteq> 0"
    and range: "cpu data < nr_cpu_ids s"
    and drv: "cpufreq_driver s = Some drv"
    and pin: "fst (try_module_get s (owner_d drv))"
    and req: "request = put (data\<lparr>kobj := kobj data + 1\<rparr>) v"
    and val: "set_policy_validate s data (qos_clamp s data request) = Some (ret, s2, p2)"
    and ret: "ret \<noteq> 0"
  shows "store_one put obj put_user s a (Some v) count
           = Some (ret,
                   s\<lparr>trace := trace s2,
                     policy_mem := (policy_mem s)
                       (a \<mapsto> data\<lparr>user_policy :=
                                     put_user (user_policy data)
                                       (obj (p2\<lparr>min_p := min_p request, max_p := max_p request\<rparr>))\<rparr>)\<rparr>)"
proof -
  from get_policy_neutral [OF tab mem held] range drv pin
  have g: "cpufreq_get_policy s (cpu data) = Some (0, s, Some (data\<lparr>kobj := kobj data + 1\<rparr>))"
    by auto
  note sp = set_policy_rejected [OF mem val ret]
  show ?thesis
    using ret by (simp add: store_one_def mem g sp [unfolded req] req upd_policy_def)
qed

lemma store_one_unscanned:
  assumes mem: "policy_mem s a = Some data"
    and tab: "cpufreq_cpu_data s (cpu data) = Some a"
    and held: "kobj data \<noteq> 0"
  shows "store_one put obj put_user s a None count = Some (- EINVAL, s)"
proof -
  from get_policy_neutral [OF tab mem held]
  obtain r copy where "cpufreq_get_policy s (cpu data) = Some (r, s, copy)" by blast
  then show ?thesis
    by (cases copy) (simp_all add: store_one_def mem)
qed

text \<open>A write of a name to \<open>scaling_governor\<close> that returns, returns \<open>count\<close>.\<close>

lemma store_governor_returns_count:
  "store_scaling_governor s a (Some str_governor) count = Some (r, s') \<Longrightarrow> r = count"
  by (auto simp: store_scaling_governor_def)

subsection \<open>The head of the attachment\<close>

lemma add_dev_head:
  assumes drv: "cpufreq_driver s = Some drv"
    and tab: "cpufreq_cpu_data s c = Some a"
    and mem: "policy_mem s a = Some p"
    and range: "c < nr_cpu_ids s"
  shows "\<exists>s'. cpufreq_add_dev s c
                = Some (Returned (if c \<in> cpu_online_mask s \<and> \<not> fst (try_module_get s (owner_d drv))
                                  then - EINVAL else 0) s')
            \<and> cpufreq_cpu_data s' = cpufreq_cpu_data s
            \<and> dom (policy_mem s') = dom (policy_mem s)
            \<and> cpufreq_driver s' = cpufreq_driver s
            \<and> nr_cpu_ids s' = nr_cpu_ids s
            \<and> (kobj p \<noteq> 0 \<longrightarrow> s' = s)"
proof (cases "c \<in> cpu_online_mask s")
  case False
  then show ?thesis by (simp add: cpufreq_add_dev_def)
next
  case True
  show ?thesis
  proof (cases "fst (try_module_get s (owner_d drv))")
    case False
    then have "cpufreq_cpu_get s c = (None, s)"
      using drv range
      by (auto simp: cpufreq_cpu_get_def try_module_get_def split: option.splits if_splits)
    with False True drv show ?thesis
      by (auto simp: cpufreq_add_dev_def try_module_get_def split: option.splits if_splits)
  next
    case pin: True
    let ?s1 = "kobject_get (snd (try_module_get s (owner_d drv))) a"
    have g: "cpufreq_cpu_get s c = (Some a, ?s1)"
      using drv range tab pin
      by (auto simp: cpufreq_cpu_get_def try_module_get_def split: option.splits if_splits)
    have m1: "policy_mem ?s1 a = Some (p\<lparr>kobj := kobj p + 1\<rparr>)" and d1: "cpufreq_driver ?s1 = Some drv"
      using mem drv
      by (auto simp: kobject_get_def upd_policy_def try_module_get_def split: option.splits)
    let ?s2 = "module_put (kobject_put ?s1 a) (owner_d drv)"
    have put: "cpufreq_cpu_put ?s1 a = Some ?s2"
      by (simp add: cpufreq_cpu_put_def m1 d1)
    have fr: "cpufreq_cpu_data ?s2 = cpufreq_cpu_data s" "dom (policy_mem ?s2) = dom (policy_mem s)"
      "cpufreq_driver ?s2 = cpufreq_driver s" "nr_cpu_ids ?s2 = nr_cpu_ids s"
      using mem
      by (auto simp: module_put_def kobject_put_def kobject_get_def upd_policy_def try_module_get_def
               split: option.splits if_splits)
    have same: "kobj p \<noteq> 0 \<longrightarrow> ?s2 = s"
      using mem pin
      by (auto simp: module_put_def kobject_put_def kobject_get_def upd_policy_def try_module_get_def
                     cpufreq_sysfs_release_def map_upd_triv
               split: option.splits)
    show ?thesis
      using True pin g put fr same by (simp add: cpufreq_add_dev_def)
  qed
qed

subsection \<open>Facts about the sample system\<close>

lemma sample_unknown: "unknown_governor sample_state ''nosuch''"
  by (simp add: unknown_governor_def uu_find_governor_def strnicmp_def tolower_def
        CPUFREQ_NAME_LEN_def sample_defs)

lemma sample_held: "attached_held sample_state"
  by (simp add: attached_held_def sample_defs)

lemma sample_strict_write:
  "\<exists>s'. store_scaling_governor sample_state 7 (Some ''strict'') 6 = Some (6, s')
      \<and> map_option governor_p (policy_mem s' 7) = Some (Some sample_performance)
      \<and> map_option governor_u (map_option user_policy (policy_mem s' 7)) = Some (Some sample_performance)"
  by (simp add: store_scaling_governor_def cpufreq_get_policy_def cpufreq_cpu_get_def cpufreq_cpu_put_def
        kobject_get_def kobject_put_def cpufreq_sysfs_release_def cpufreq_parse_governor_def
        uu_find_governor_def strnicmp_def tolower_def CPUFREQ_NAME_LEN_def engine_defs sample_defs)

subsection \<open>The window of the transition engine\<close>

text \<open>
  C1. In \<open>__cpufreq_set_policy(data, policy)\<close>, with \<open>pmin\<close> and \<open>pmax\<close> the proposed
  bounds, \<open>umin\<close> and \<open>umax\<close> the user's limits of \<open>data\<close> and \<open>qos_min\<close>,
  \<open>qos_max\<close> the current QoS requests (read as unsigned), everything after the clamp (the
  range check, both calls of \<open>verify\<close>, the notifications and the commit) runs on the proposal
  \<open>w\<close> whose window is \<open>min = max pmin (min qos_min umax)\<close> and
  \<open>max = min pmax (max qos_max umin)\<close>; and whenever the validation of \<open>w\<close> passes and
  the call returns, the limits committed to \<open>data\<close> are those that the validation ends
  with.
\<close>

theorem set_policy_qos_window:
  assumes mem: "policy_mem s a = Some data"
    and qmin: "qos_min = word_of_int (pm_qos_request s PM_QOS_CPU_FREQ_MIN)"
    and qmax: "qos_max = word_of_int (pm_qos_request s PM_QOS_CPU_FREQ_MAX)"
    and w: "w = policy\<lparr>min_p := max (min_p policy) (min qos_min (max_u (user_policy data))),
                         max_p := min (max_p policy) (max qos_max (min_u (user_policy data))),
                         cpuinfo := cpuinfo data\<rparr>"
  shows "uu_cpufreq_set_policy s a policy =
           map_option (\<lambda>(r, t, p'). (r, t, p'\<lparr>min_p := min_p policy, max_p := max_p policy\<rparr>))
             (set_policy_checked s a data w)
         \<and> (\<forall>s1 p1 ret s' policy'.
               set_policy_validate s data w = Some (0, s1, p1)
               \<and> uu_cpufreq_set_policy s a policy = Some (ret, s', policy') \<longrightarrow>
               (\<exists>d. policy_mem s' a = Some d \<and> min_p d = min_p p1 \<and> max_p d = max_p p1))"
proof (intro conjI allI impI)
  have cl: "qos_clamp s data policy = w"
    by (simp add: qos_clamp_def Let_def w qmin qmax)
  show eq: "uu_cpufreq_set_policy s a policy =
           map_option (\<lambda>(r, t, p'). (r, t, p'\<lparr>min_p := min_p policy, max_p := max_p policy\<rparr>))
             (set_policy_checked s a data w)"
    by (simp add: uu_cpufreq_set_policy_def mem Let_def cl)
  fix s1 p1 ret s' policy'
  assume h: "set_policy_validate s data w = Some (0, s1, p1)
             \<and> uu_cpufreq_set_policy s a policy = Some (ret, s', policy')"
  then have val: "set_policy_validate s data w = Some (0, s1, p1)"
    and res: "uu_cpufreq_set_policy s a policy = Some (ret, s', policy')" by simp_all
  from validate_frame [OF val] mem have m1: "policy_mem s1 a = Some data" by simp
  from res eq val obtain drv r where
    "set_policy_commit s1 a drv p1 0 = Some (r, s')"
    by (auto simp: set_policy_checked_def split: option.splits)
  from commit_limits [OF this m1]
  show "\<exists>d. policy_mem s' a = Some d \<and> min_p d = min_p p1 \<and> max_p d = max_p p1" .
qed

text \<open>
  The sample system: the user asked for at least 800000, QoS asks for 1200000, and the call
  commits 1200000 while the user's limit stays at 800000.
\<close>

theorem set_policy_qos_window_witness:
  "\<exists>ret s' p' d.
     uu_cpufreq_set_policy sample_state 7 sample_policy = Some (ret, s', p')
     \<and> policy_mem s' 7 = Some d \<and> min_p d = 1200000 \<and> max_p d = 2000000
     \<and> min_u (user_policy d) = 800000"
proof -
  let ?w = "sample_policy\<lparr>min_p := 1200000\<rparr>"
  let ?s1 = "sample_state\<lparr>trace :=
       [DrvVerify ?w, PolicyNotifier CPUFREQ_ADJUST ?w, PolicyNotifier CPUFREQ_INCOMPATIBLE ?w,
        DrvVerify ?w, PolicyNotifier CPUFREQ_NOTIFY ?w]\<rparr>"
  have mem: "policy_mem sample_state 7 = Some sample_policy"
    by (simp add: sample_defs)
  have w: "?w = sample_policy\<lparr>
      min_p := max (min_p sample_policy) (min (word_of_int (pm_qos_request sample_state PM_QOS_CPU_FREQ_MIN)) (max_u (user_policy sample_policy))),
      max_p := min (max_p sample_policy) (max (word_of_int (pm_qos_request sample_state PM_QOS_CPU_FREQ_MAX)) (min_u (user_policy sample_policy))),
      cpuinfo := cpuinfo sample_policy\<rparr>"
    by (simp add: sample_defs pm_qos_request_def)
  have val: "set_policy_validate sample_state sample_policy ?w = Some (0, ?s1, ?w)"
    by (simp add: engine_defs sample_defs)
  obtain ret s' p' where res: "uu_cpufreq_set_policy sample_state 7 sample_policy = Some (ret, s', p')"
    by (simp add: engine_defs sample_defs)
  from set_policy_qos_window [OF mem refl refl w] val res
  obtain d where d: "policy_mem s' 7 = Some d" "min_p d = 1200000" "max_p d = 2000000"
    by (auto simp: sample_defs)
  have "min_u (user_policy d) = 800000"
    using res d(1) by (auto simp add: engine_defs sample_defs)
  with res d show ?thesis by blast
qed

text \<open>
  C2. When, after the QoS clamp, the proposed window has its \<open>min\<close> above the user's
  \<open>max\<close> or its \<open>max\<close> below the user's \<open>min\<close>, \<open>__cpufreq_set_policy\<close> returns
  \<open>-EINVAL\<close> and the state is the one it was called in: the live policy keeps its
  \<open>min\<close>, \<open>max\<close>, \<open>policy\<close> and \<open>governor\<close>, and nothing was handed to the driver,
  the notifiers or a governor (the trace is part of the state).
\<close>

theorem set_policy_rejects_outside_user_window:
  assumes mem: "policy_mem s a = Some data"
    and qmin: "qos_min = word_of_int (pm_qos_request s PM_QOS_CPU_FREQ_MIN)"
    and qmax: "qos_max = word_of_int (pm_qos_request s PM_QOS_CPU_FREQ_MAX)"
    and rej: "max (min_p policy) (min qos_min (max_u (user_policy data))) > max_u (user_policy data)
              \<or> min (max_p policy) (max qos_max (min_u (user_policy data))) < min_u (user_policy data)"
  shows "uu_cpufreq_set_policy s a policy = Some (- EINVAL, s, policy\<lparr>cpuinfo := cpuinfo data\<rparr>)"
  using mem rej unfolding qmin qmax
  by (auto simp add: uu_cpufreq_set_policy_def set_policy_checked_def set_policy_validate_def
        Let_def qos_clamp_def EINVAL_def)

theorem set_policy_rejects_outside_user_window_witness:
  "policy_mem sample_state 7 = Some sample_policy
   \<and> max (min_p (sample_policy\<lparr>min_p := 2500000\<rparr>))
         (min (word_of_int (pm_qos_request sample_state PM_QOS_CPU_FREQ_MIN))
              (max_u (user_policy sample_policy)))
       > max_u (user_policy sample_policy)
   \<and> uu_cpufreq_set_policy sample_state 7 (sample_policy\<lparr>min_p := 2500000\<rparr>)
       = Some (- EINVAL, sample_state, sample_policy\<lparr>min_p := 2500000\<rparr>)"
proof -
  have mem: "policy_mem sample_state 7 = Some sample_policy"
    by (simp add: sample_defs)
  have rej: "max (min_p (sample_policy\<lparr>min_p := 2500000\<rparr>))
         (min (word_of_int (pm_qos_request sample_state PM_QOS_CPU_FREQ_MIN))
              (max_u (user_policy sample_policy)))
       > max_u (user_policy sample_policy)"
    by (simp add: sample_defs pm_qos_request_def)
  from set_policy_rejects_outside_user_window [OF mem refl refl disjI1 [OF rej]] mem rej
  show ?thesis by (simp add: sample_policy_def)
qed

subsection \<open>The proposal gets its limits back\<close>

text \<open>
  C10. Whenever \<open>__cpufreq_set_policy\<close> returns, with success or with an error, the
  proposal has the \<open>min\<close> and \<open>max\<close> it was passed in with, whatever was committed to the
  live policy.
\<close>

theorem set_policy_restores_proposal:
  assumes "uu_cpufreq_set_policy s a policy = Some (ret, s', policy')"
  shows "min_p policy' = min_p policy \<and> max_p policy' = max_p policy"
  using assms
  by (auto simp add: uu_cpufreq_set_policy_def Let_def split: option.splits)

theorem set_policy_restores_proposal_witness:
  "\<exists>s' policy'. uu_cpufreq_set_policy sample_state 7 sample_policy = Some (0, s', policy')
     \<and> min_p policy' = 800000 \<and> max_p policy' = 2000000
     \<and> map_option min_p (policy_mem s' 7) = Some 1200000"
proof -
  obtain s' p' where res: "uu_cpufreq_set_policy sample_state 7 sample_policy = Some (0, s', p')"
    by (simp add: engine_defs sample_defs)
  from set_policy_restores_proposal [OF res]
  have "min_p p' = 800000 \<and> max_p p' = 2000000" by (simp add: sample_policy_def)
  moreover have "map_option min_p (policy_mem s' 7) = Some 1200000"
    using res by (auto simp add: engine_defs sample_defs)
  ultimately show ?thesis using res by blast
qed

subsection \<open>The latency fallback of the governor dispatch\<close>

text \<open>
  C5. When \<open>__cpufreq_governor\<close> dispatches an event for a policy whose governor declares
  a non-zero \<open>max_transition_latency\<close> below the \<open>transition_latency\<close> of the hardware,
  it replaces the policy's governor by the compiled-in performance governor and hands
  the event to that governor, returning what it returns (the module of that governor can be
  pinned: it is built in and has none); when no performance governor is compiled in, the
  dispatch returns \<open>-EINVAL\<close> and changes nothing. The write of such a governor's name
  to \<open>scaling_governor\<close> returns \<open>count\<close>, as every write of a name does
  (\<open>store_governor_returns_count\<close>); the sample system below ends it with the
  performance governor installed.
\<close>

theorem governor_latency_fallback:
  assumes mem: "policy_mem s a = Some policy"
    and gov: "governor_p policy = Some g"
    and lat: "max_transition_latency g \<noteq> 0"
             "max_transition_latency g < transition_latency (cpuinfo policy)"
  shows "case gov_performance s of
           None \<Rightarrow> uu_cpufreq_governor s a ev = Some (- EINVAL, s)
         | Some perf \<Rightarrow>
             fst (try_module_get s (owner perf)) \<longrightarrow>
             (\<exists>s'. uu_cpufreq_governor s a ev
                     = Some (governor_fn s (trace s) perf (policy\<lparr>governor_p := Some perf\<rparr>) ev, s')
                  \<and> policy_mem s' = (policy_mem s)(a \<mapsto> policy\<lparr>governor_p := Some perf\<rparr>)
                  \<and> trace s' = trace s @ [GovernorCall perf ev (policy\<lparr>governor_p := Some perf\<rparr>)])"
  using assms
  by (auto simp: uu_cpufreq_governor_def governor_dispatch_def try_module_get_def module_put_def
        upd_policy_def log_event_def Let_def split: option.splits)

text \<open>
  The sample system with the governor \<open>strict\<close>, which tolerates 1000 ns on hardware that
  needs 10000 ns: a START goes to the performance governor, and without a compiled-in
  performance governor it is refused; the write of \<open>strict\<close> to \<open>scaling_governor\<close>
  returns its length and leaves the performance governor installed.
\<close>

theorem governor_latency_fallback_witness:
  "(\<exists>s'. uu_cpufreq_governor (upd_policy sample_state 7 (\<lambda>p. p\<lparr>governor_p := Some sample_strict\<rparr>)) 7
            CPUFREQ_GOV_START = Some (0, s')
        \<and> map_option governor_p (policy_mem s' 7) = Some (Some sample_performance)
        \<and> trace s' = [GovernorCall sample_performance CPUFREQ_GOV_START
                         (sample_policy\<lparr>governor_p := Some sample_performance\<rparr>)])
   \<and> uu_cpufreq_governor
        (upd_policy (sample_state\<lparr>gov_performance := None\<rparr>) 7 (\<lambda>p. p\<lparr>governor_p := Some sample_strict\<rparr>)) 7
        CPUFREQ_GOV_START
      = Some (- EINVAL,
              upd_policy (sample_state\<lparr>gov_performance := None\<rparr>) 7 (\<lambda>p. p\<lparr>governor_p := Some sample_strict\<rparr>))
   \<and> (\<exists>s'. store_scaling_governor sample_state 7 (Some ''strict'') 6 = Some (6, s')
          \<and> map_option governor_p (policy_mem s' 7) = Some (Some sample_performance))"
proof -
  let ?p = "sample_policy\<lparr>governor_p := Some sample_strict\<rparr>"
  let ?s = "upd_policy sample_state 7 (\<lambda>p. p\<lparr>governor_p := Some sample_strict\<rparr>)"
  let ?t = "upd_policy (sample_state\<lparr>gov_performance := None\<rparr>) 7 (\<lambda>p. p\<lparr>governor_p := Some sample_strict\<rparr>)"
  have mem: "policy_mem ?s 7 = Some ?p" "policy_mem ?t 7 = Some ?p"
    by (simp_all add: upd_policy_def sample_state_def)
  have gov: "governor_p ?p = Some sample_strict" by simp
  have lat: "max_transition_latency sample_strict \<noteq> 0"
    "max_transition_latency sample_strict < transition_latency (cpuinfo ?p)"
    by (simp_all add: sample_defs)
  have perf: "gov_performance ?s = Some sample_performance"
    "fst (try_module_get ?s (owner sample_performance))" "gov_performance ?t = None"
    by (simp_all add: upd_policy_def try_module_get_def sample_defs)
  from governor_latency_fallback [OF mem(1) gov lat, of CPUFREQ_GOV_START] perf
  have a: "\<exists>s'. uu_cpufreq_governor ?s 7 CPUFREQ_GOV_START = Some (0, s')
        \<and> map_option governor_p (policy_mem s' 7) = Some (Some sample_performance)
        \<and> trace s' = [GovernorCall sample_performance CPUFREQ_GOV_START
                         (sample_policy\<lparr>governor_p := Some sample_performance\<rparr>)]"
    by (auto simp: upd_policy_def sample_defs)
  from governor_latency_fallback [OF mem(2) gov lat, of CPUFREQ_GOV_START] perf
  have b: "uu_cpufreq_governor ?t 7 CPUFREQ_GOV_START = Some (- EINVAL, ?t)"
    by simp
  from a b sample_strict_write show ?thesis by blast
qed

subsection \<open>The governor switch\<close>

text \<open>
  C4, as the specification states it, has every switch stop the old governor and, when the
  start of the new governor fails, install and start the old governor again. The branch
  also runs when the live policy has no governor: \<open>cpufreq_add_dev_interface\<close> copies the
  policy into the proposal, clears \<open>policy->governor\<close> (line 1266) and calls the engine, and
  the STOP and the rollback are guarded by \<open>if (data->governor)\<close> (line 2139) and
  \<open>if (old_gov)\<close> (line 2148). In the sample system at that point, with the governor
  \<open>broken\<close> proposed, whose START fails: the only governor call is that START, nothing
  is stopped or started again, the call returns \<open>-EINVAL\<close>, and \<open>broken\<close> stays installed.
\<close>

theorem set_policy_attach_switch_counterexample:
  "policy_mem sample_attaching 7 = Some (sample_policy\<lparr>governor_p := None\<rparr>)
   \<and> (\<exists>sc. uu_cpufreq_set_policy sample_attaching 7 (sample_policy\<lparr>governor_p := Some sample_broken\<rparr>)
              = Some (- EINVAL, sc, sample_policy\<lparr>governor_p := Some sample_broken\<rparr>)
          \<and> map_option governor_p (policy_mem sc 7) = Some (Some sample_broken)
          \<and> trace sc
              = sample_validation (sample_policy\<lparr>min_p := 1200000, governor_p := Some sample_broken\<rparr>)
                @ [GovernorCall sample_broken CPUFREQ_GOV_START
                     (sample_policy\<lparr>min_p := 1200000, governor_p := Some sample_broken\<rparr>)])"
  by (simp add: engine_defs sample_defs)

text \<open>
  C4, amended. In \<open>__cpufreq_set_policy\<close> with a \<open>target\<close> driver (no \<open>setpolicy\<close>), when
  the governor of the validated proposal differs from the governor of the live policy, the
  engine, having committed the limits, does the following.

  \<^item> The proposal names a governor \<open>new\<close> and the live policy has a governor \<open>old\<close>: the
    engine sends STOP through \<open>__cpufreq_governor\<close> with the old governor installed,
    installs the new governor and sends START. When that START returns non-zero it installs
    the old governor again, sends START once more and returns \<open>-EINVAL\<close>; otherwise it
    sends LIMITS and returns 0.

  \<^item> The proposal names a governor \<open>new\<close> and the live policy has none (the call at attach
    time): nothing is stopped; the engine installs the new governor and sends START. When
    that START returns non-zero the engine returns \<open>-EINVAL\<close> in the state the START left:
    nothing is installed or started again. Otherwise it sends LIMITS and returns 0.

  \<^item> The proposal has no governor (and the live policy has one): the old governor is
    stopped, the null pointer is installed, and the START dereferences it in
    \<open>__cpufreq_governor\<close>; the call does not return.

  Every dispatch named in the first two cases returns.
\<close>

theorem set_policy_governor_switch:
  assumes mem: "policy_mem s a = Some data"
    and val: "set_policy_validate s data (qos_clamp s data policy) = Some (0, s1, p1)"
    and drv: "cpufreq_driver s = Some drv" "setpolicy drv = None"
    and diff: "governor_p p1 \<noteq> governor_p data"
  shows
    "case governor_p p1 of
       Some new \<Rightarrow>
         (case governor_p data of
            Some old \<Rightarrow>
              \<exists>r0 sa r1 sb.
                 uu_cpufreq_governor (upd_policy s1 a (\<lambda>d. d\<lparr>min_p := min_p p1, max_p := max_p p1\<rparr>)) a
                   CPUFREQ_GOV_STOP = Some (r0, sa)
               \<and> uu_cpufreq_governor (upd_policy sa a (\<lambda>d. d\<lparr>governor_p := Some new\<rparr>)) a
                   CPUFREQ_GOV_START = Some (r1, sb)
               \<and> (if r1 \<noteq> 0
                  then \<exists>r2 sc.
                         uu_cpufreq_governor (upd_policy sb a (\<lambda>d. d\<lparr>governor_p := Some old\<rparr>)) a
                           CPUFREQ_GOV_START = Some (r2, sc)
                       \<and> uu_cpufreq_set_policy s a policy
                           = Some (- EINVAL, sc, p1\<lparr>min_p := min_p policy, max_p := max_p policy\<rparr>)
                  else \<exists>r3 sd.
                         uu_cpufreq_governor sb a CPUFREQ_GOV_LIMITS = Some (r3, sd)
                       \<and> uu_cpufreq_set_policy s a policy
                           = Some (0, sd, p1\<lparr>min_p := min_p policy, max_p := max_p policy\<rparr>))
          | None \<Rightarrow>
              \<exists>r1 sb.
                 uu_cpufreq_governor
                   (upd_policy s1 a
                      (\<lambda>d. d\<lparr>min_p := min_p p1, max_p := max_p p1, governor_p := Some new\<rparr>)) a
                   CPUFREQ_GOV_START = Some (r1, sb)
               \<and> (if r1 \<noteq> 0
                  then uu_cpufreq_set_policy s a policy
                         = Some (- EINVAL, sb, p1\<lparr>min_p := min_p policy, max_p := max_p policy\<rparr>)
                  else \<exists>r3 sd.
                         uu_cpufreq_governor sb a CPUFREQ_GOV_LIMITS = Some (r3, sd)
                       \<and> uu_cpufreq_set_policy s a policy
                           = Some (0, sd, p1\<lparr>min_p := min_p policy, max_p := max_p policy\<rparr>)))
     | None \<Rightarrow>
         (\<exists>r0 sa. uu_cpufreq_governor
                     (upd_policy s1 a (\<lambda>d. d\<lparr>min_p := min_p p1, max_p := max_p p1\<rparr>)) a
                     CPUFREQ_GOV_STOP = Some (r0, sa)
                 \<and> uu_cpufreq_governor (upd_policy sa a (\<lambda>d. d\<lparr>governor_p := None\<rparr>)) a
                     CPUFREQ_GOV_START = None)
         \<and> uu_cpufreq_set_policy s a policy = None"
proof -
  let ?c = "upd_policy s1 a (\<lambda>d. d\<lparr>min_p := min_p p1, max_p := max_p p1\<rparr>)"
  let ?dc = "data\<lparr>min_p := min_p p1, max_p := max_p p1\<rparr>"
  let ?out = "p1\<lparr>min_p := min_p policy, max_p := max_p policy\<rparr>"
  from validate_frame [OF val] mem drv
  have m1: "policy_mem s1 a = Some data" and d1: "cpufreq_driver s1 = Some drv" by simp_all
  have mc: "policy_mem ?c a = Some ?dc" using m1 by (simp add: upd_policy_def)
  have commit: "set_policy_commit s1 a drv p1 0 =
                  do {
                    (failed, s2) \<leftarrow> governor_switch ?c a (governor_p p1);
                    if failed then Some (- EINVAL, s2)
                    else do {
                      (r, s3) \<leftarrow> uu_cpufreq_governor s2 a CPUFREQ_GOV_LIMITS;
                      Some (0, s3)
                    }
                  }"
    using diff by (simp add: set_policy_commit_def Let_def drv(2) mc)
  have whole: "uu_cpufreq_set_policy s a policy =
                 map_option (\<lambda>(r, t). (r, t, ?out)) (set_policy_commit s1 a drv p1 0)"
    by (simp add: uu_cpufreq_set_policy_def set_policy_checked_def Let_def mem val d1
          option.map_comp comp_def split_def)
  show ?thesis
  proof (cases "governor_p p1")
    case None
    with diff obtain old where old: "governor_p data = Some old"
      by (cases "governor_p data") auto
    have gc: "governor_p ?dc = Some old" using old by simp
    from governor_total [OF mc gc, of CPUFREQ_GOV_STOP]
    obtain r0 sa da where stop: "uu_cpufreq_governor ?c a CPUFREQ_GOV_STOP = Some (r0, sa)"
      and ma: "policy_mem sa a = Some da" by blast
    have start: "uu_cpufreq_governor (upd_policy sa a (\<lambda>d. d\<lparr>governor_p := None\<rparr>)) a
                   CPUFREQ_GOV_START = None"
      using ma by (simp add: uu_cpufreq_governor_def upd_policy_def)
    have sw: "governor_switch ?c a None = None"
      by (simp add: governor_switch_def mc gc stop start)
    have "uu_cpufreq_set_policy s a policy = None"
      by (simp add: whole commit None sw)
    with stop start None show ?thesis by simp
  next
    case (Some new)
    note new = Some
    show ?thesis
    proof (cases "governor_p data")
      case None
      note none = None
      let ?i = "upd_policy s1 a (\<lambda>d. d\<lparr>min_p := min_p p1, max_p := max_p p1, governor_p := Some new\<rparr>)"
      have inst: "upd_policy ?c a (\<lambda>d. d\<lparr>governor_p := Some new\<rparr>) = ?i"
        using m1 by (simp add: upd_policy_def)
      have mi: "policy_mem ?i a
                  = Some (data\<lparr>min_p := min_p p1, max_p := max_p p1, governor_p := Some new\<rparr>)"
        using m1 by (simp add: upd_policy_def)
      from governor_total [OF mi, of new CPUFREQ_GOV_START]
      obtain r1 sb db gb where start: "uu_cpufreq_governor ?i a CPUFREQ_GOV_START = Some (r1, sb)"
        and mb: "policy_mem sb a = Some db" and gb: "governor_p db = Some gb" by auto
      have gc: "governor_p ?dc = None" using none by simp
      have sw: "governor_switch ?c a (Some new) = Some (r1 \<noteq> 0, sb)"
        by (simp add: governor_switch_def mc gc inst start)
      show ?thesis
      proof (cases "r1 = 0")
        case True
        from governor_total [OF mb gb, of CPUFREQ_GOV_LIMITS]
        obtain r3 sd where lim: "uu_cpufreq_governor sb a CPUFREQ_GOV_LIMITS = Some (r3, sd)"
          by blast
        have "uu_cpufreq_set_policy s a policy = Some (0, sd, ?out)"
          by (simp add: whole commit new sw True lim)
        with start lim True new none show ?thesis by auto
      next
        case False
        have "uu_cpufreq_set_policy s a policy = Some (- EINVAL, sb, ?out)"
          by (simp add: whole commit new sw False)
        with start False new none show ?thesis by auto
      qed
    next
      case (Some old)
      note old = Some
      have gc: "governor_p ?dc = Some old" using old by simp
      from governor_total [OF mc gc, of CPUFREQ_GOV_STOP]
      obtain r0 sa da where stop: "uu_cpufreq_governor ?c a CPUFREQ_GOV_STOP = Some (r0, sa)"
        and ma: "policy_mem sa a = Some da" by blast
      let ?i = "upd_policy sa a (\<lambda>d. d\<lparr>governor_p := Some new\<rparr>)"
      have mi: "policy_mem ?i a = Some (da\<lparr>governor_p := Some new\<rparr>)"
        using ma by (simp add: upd_policy_def)
      from governor_total [OF mi, of new CPUFREQ_GOV_START]
      obtain r1 sb db gb where start: "uu_cpufreq_governor ?i a CPUFREQ_GOV_START = Some (r1, sb)"
        and mb: "policy_mem sb a = Some db" and gb: "governor_p db = Some gb" by auto
      have sw: "governor_switch ?c a (Some new) =
                  (if r1 \<noteq> 0
                   then map_option (\<lambda>(r', s4). (True, s4))
                          (uu_cpufreq_governor (upd_policy sb a (\<lambda>d. d\<lparr>governor_p := Some old\<rparr>)) a
                             CPUFREQ_GOV_START)
                   else Some (False, sb))"
        by (simp add: governor_switch_def mc gc stop start)
      show ?thesis
      proof (cases "r1 = 0")
        case True
        from governor_total [OF mb gb, of CPUFREQ_GOV_LIMITS]
        obtain r3 sd where lim: "uu_cpufreq_governor sb a CPUFREQ_GOV_LIMITS = Some (r3, sd)"
          by blast
        have "uu_cpufreq_set_policy s a policy = Some (0, sd, ?out)"
          by (simp add: whole commit new sw True lim)
        with stop start lim True new old show ?thesis by auto
      next
        case False
        let ?b = "upd_policy sb a (\<lambda>d. d\<lparr>governor_p := Some old\<rparr>)"
        have "policy_mem ?b a = Some (db\<lparr>governor_p := Some old\<rparr>)"
          using mb by (simp add: upd_policy_def)
        from governor_total [OF this, of old CPUFREQ_GOV_START]
        obtain r2 sc where restart: "uu_cpufreq_governor ?b a CPUFREQ_GOV_START = Some (r2, sc)"
          by auto
        have "uu_cpufreq_set_policy s a policy = Some (- EINVAL, sc, ?out)"
          by (simp add: whole commit new sw False restart)
        with stop start restart False new old show ?thesis by auto
      qed
    qed
  qed
qed

text \<open>
  The sample system, asked to switch from \<open>interactive\<close> to the governor \<open>broken\<close>,
  whose START fails: the old governor is stopped, the new one started, the old one started
  again, and the call returns \<open>-EINVAL\<close> with the old governor installed. The same request
  at attach time, when the live policy has no governor: \<open>broken\<close> is started, and the call
  returns \<open>-EINVAL\<close> with \<open>broken\<close> installed.
\<close>

theorem set_policy_governor_switch_witness:
  "policy_mem sample_state 7 = Some sample_policy
   \<and> set_policy_validate sample_state sample_policy
         (qos_clamp sample_state sample_policy (sample_policy\<lparr>governor_p := Some sample_broken\<rparr>))
       = Some (0, sample_state\<lparr>trace := sample_validation
                                   (sample_policy\<lparr>min_p := 1200000, governor_p := Some sample_broken\<rparr>)\<rparr>,
               sample_policy\<lparr>min_p := 1200000, governor_p := Some sample_broken\<rparr>)
   \<and> sample_broken \<noteq> sample_governor
   \<and> (\<exists>sc. uu_cpufreq_set_policy sample_state 7 (sample_policy\<lparr>governor_p := Some sample_broken\<rparr>)
              = Some (- EINVAL, sc, sample_policy\<lparr>governor_p := Some sample_broken\<rparr>)
          \<and> map_option governor_p (policy_mem sc 7) = Some (Some sample_governor)
          \<and> drop 5 (trace sc)
              = [GovernorCall sample_governor CPUFREQ_GOV_STOP (sample_policy\<lparr>min_p := 1200000\<rparr>),
                 GovernorCall sample_broken CPUFREQ_GOV_START
                   (sample_policy\<lparr>min_p := 1200000, governor_p := Some sample_broken\<rparr>),
                 GovernorCall sample_governor CPUFREQ_GOV_START (sample_policy\<lparr>min_p := 1200000\<rparr>)])
   \<and> policy_mem sample_attaching 7 = Some (sample_policy\<lparr>governor_p := None\<rparr>)
   \<and> set_policy_validate sample_attaching (sample_policy\<lparr>governor_p := None\<rparr>)
         (qos_clamp sample_attaching (sample_policy\<lparr>governor_p := None\<rparr>)
            (sample_policy\<lparr>governor_p := Some sample_broken\<rparr>))
       = Some (0, sample_attaching\<lparr>trace := sample_validation
                                   (sample_policy\<lparr>min_p := 1200000, governor_p := Some sample_broken\<rparr>)\<rparr>,
               sample_policy\<lparr>min_p := 1200000, governor_p := Some sample_broken\<rparr>)
   \<and> (\<exists>sb. uu_cpufreq_governor
              (upd_policy
                 (sample_attaching\<lparr>trace := sample_validation
                                      (sample_policy\<lparr>min_p := 1200000, governor_p := Some sample_broken\<rparr>)\<rparr>)
                 7 (\<lambda>d. d\<lparr>min_p := 1200000, max_p := 2000000, governor_p := Some sample_broken\<rparr>))
              7 CPUFREQ_GOV_START = Some (- 5, sb)
          \<and> uu_cpufreq_set_policy sample_attaching 7 (sample_policy\<lparr>governor_p := Some sample_broken\<rparr>)
              = Some (- EINVAL, sb, sample_policy\<lparr>governor_p := Some sample_broken\<rparr>)
          \<and> map_option governor_p (policy_mem sb 7) = Some (Some sample_broken))"
proof -
  let ?req = "sample_policy\<lparr>governor_p := Some sample_broken\<rparr>"
  let ?w = "sample_policy\<lparr>min_p := 1200000, governor_p := Some sample_broken\<rparr>"
  let ?s1 = "sample_state\<lparr>trace := sample_validation ?w\<rparr>"
  let ?n = "sample_policy\<lparr>governor_p := None\<rparr>"
  let ?a1 = "sample_attaching\<lparr>trace := sample_validation ?w\<rparr>"
  have mem: "policy_mem sample_state 7 = Some sample_policy"
    by (simp add: sample_defs)
  have val: "set_policy_validate sample_state sample_policy (qos_clamp sample_state sample_policy ?req)
               = Some (0, ?s1, ?w)"
    by (simp add: engine_defs sample_defs)
  have drv: "cpufreq_driver sample_state = Some sample_driver" "setpolicy sample_driver = None"
    by (simp_all add: sample_defs)
  have ne: "sample_broken \<noteq> sample_governor" by (simp add: sample_defs)
  have diff: "governor_p ?w \<noteq> governor_p sample_policy" by (simp add: sample_defs)
  from set_policy_governor_switch [OF mem val drv diff]
  obtain r sc where res: "uu_cpufreq_set_policy sample_state 7 ?req = Some (r, sc, ?req)"
    by (auto simp: sample_policy_def split: if_splits)
  have ev: "\<exists>sc. uu_cpufreq_set_policy sample_state 7 ?req = Some (- EINVAL, sc, ?req)
          \<and> map_option governor_p (policy_mem sc 7) = Some (Some sample_governor)
          \<and> drop 5 (trace sc)
              = [GovernorCall sample_governor CPUFREQ_GOV_STOP (sample_policy\<lparr>min_p := 1200000\<rparr>),
                 GovernorCall sample_broken CPUFREQ_GOV_START ?w,
                 GovernorCall sample_governor CPUFREQ_GOV_START (sample_policy\<lparr>min_p := 1200000\<rparr>)]"
    by (simp add: engine_defs sample_defs)
  have amem: "policy_mem sample_attaching 7 = Some ?n"
    by (simp add: upd_policy_def sample_defs)
  have aval: "set_policy_validate sample_attaching ?n (qos_clamp sample_attaching ?n ?req)
               = Some (0, ?a1, ?w)"
    by (simp add: engine_defs sample_defs)
  have adrv: "cpufreq_driver sample_attaching = Some sample_driver"
    by (simp add: upd_policy_def sample_defs)
  have adiff: "governor_p ?w \<noteq> governor_p ?n" by simp
  have start: "\<exists>sb. uu_cpufreq_governor
                      (upd_policy ?a1 7
                         (\<lambda>d. d\<lparr>min_p := 1200000, max_p := 2000000, governor_p := Some sample_broken\<rparr>))
                      7 CPUFREQ_GOV_START = Some (- 5, sb)
                 \<and> map_option governor_p (policy_mem sb 7) = Some (Some sample_broken)"
    by (simp add: engine_defs sample_defs)
  then obtain sb where sb: "uu_cpufreq_governor
                      (upd_policy ?a1 7
                         (\<lambda>d. d\<lparr>min_p := 1200000, max_p := 2000000, governor_p := Some sample_broken\<rparr>))
                      7 CPUFREQ_GOV_START = Some (- 5, sb)"
      and gb: "map_option governor_p (policy_mem sb 7) = Some (Some sample_broken)" by blast
  have lim: "min_p ?w = 1200000" "max_p ?w = 2000000" by (simp_all add: sample_defs)
  from set_policy_governor_switch [OF amem aval adrv drv(2) adiff] sb
  have ares: "uu_cpufreq_set_policy sample_attaching 7 ?req = Some (- EINVAL, sb, ?req)"
    by (simp add: lim sample_policy_def)
  from mem val ne res ev amem aval sb ares gb show ?thesis by blast
qed

subsection \<open>Counted references to a policy\<close>

text \<open>
  C9. \<open>cpufreq_cpu_get(cpu)\<close> returns \<open>NULL\<close> whenever the CPU index is out of range, no
  driver is registered or no policy is attached to the CPU, and a call that returns
  \<open>NULL\<close> leaves the state as it was. A call that returns a policy has taken one
  reference on the kobject of that policy and one on the module of the driver, and
  \<open>cpufreq_cpu_put\<close> gives back exactly these two: both counts are again what they were
  before the \<open>get\<close>.
\<close>

theorem cpu_get_put_references:
  assumes get: "cpufreq_cpu_get s c = (r, s')"
  shows "(c \<ge> nr_cpu_ids s \<or> cpufreq_driver s = None \<or> cpufreq_cpu_data s c = None \<longrightarrow> r = None)
       \<and> (r = None \<longrightarrow> s' = s)
       \<and> (\<forall>a p. r = Some a \<and> policy_mem s a = Some p \<longrightarrow>
            (\<exists>drv. cpufreq_driver s = Some drv
               \<and> c < nr_cpu_ids s \<and> cpufreq_cpu_data s c = Some a
               \<and> policy_mem s' = (policy_mem s)(a \<mapsto> p\<lparr>kobj := kobj p + 1\<rparr>)
               \<and> (\<forall>m. owner_d drv = Some m \<longrightarrow>
                      module_refcnt s' = (module_refcnt s)(m := module_refcnt s m + 1))
               \<and> (\<exists>s''. cpufreq_cpu_put s' a = Some s''
                      \<and> map_option kobj (policy_mem s'' a) = Some (kobj p)
                      \<and> module_refcnt s'' = module_refcnt s
                      \<and> cpufreq_cpu_data s'' = cpufreq_cpu_data s)))"
proof (intro conjI allI impI)
  assume "c \<ge> nr_cpu_ids s \<or> cpufreq_driver s = None \<or> cpufreq_cpu_data s c = None"
  from cpu_get_null [OF this] get show "r = None" by simp
next
  assume "r = None"
  with get cpu_get_failure show "s' = s" by blast
next
  fix a p
  assume h: "r = Some a \<and> policy_mem s a = Some p"
  with get cpu_get_success [of s c a s']
  obtain drv where drv: "cpufreq_driver s = Some drv" and c: "c < nr_cpu_ids s"
    and tab: "cpufreq_cpu_data s c = Some a"
    and pin: "fst (try_module_get s (owner_d drv))"
    and s': "s' = kobject_get (snd (try_module_get s (owner_d drv))) a"
    by auto
  have mem': "policy_mem s' = (policy_mem s)(a \<mapsto> p\<lparr>kobj := kobj p + 1\<rparr>)"
    using h pin by (auto simp: s' kobject_get_def upd_policy_def try_module_get_def split: option.splits)
  have refs': "\<forall>m. owner_d drv = Some m \<longrightarrow>
                 module_refcnt s' = (module_refcnt s)(m := module_refcnt s m + 1)"
    using pin by (auto simp: s' kobject_get_def upd_policy_def try_module_get_def split: if_splits)
  have d': "cpufreq_driver s' = Some drv" and t': "cpufreq_cpu_data s' = cpufreq_cpu_data s"
    using drv pin by (auto simp: s' kobject_get_def upd_policy_def try_module_get_def split: option.splits)
  have ma: "policy_mem s' a = Some (p\<lparr>kobj := kobj p + 1\<rparr>)" by (simp add: mem')
  let ?s'' = "module_put (kobject_put s' a) (owner_d drv)"
  have put: "cpufreq_cpu_put s' a = Some ?s''"
    by (simp add: cpufreq_cpu_put_def ma d')
  have k'': "map_option kobj (policy_mem ?s'' a) = Some (kobj p)"
    using kobject_put_count [OF ma] by (simp add: module_put_def split: option.splits)
  have r'': "module_refcnt ?s'' = module_refcnt s"
    using refs' kobject_put_frame [of s' a] pin
    by (auto simp: module_put_def s' kobject_get_def upd_policy_def try_module_get_def split: option.splits)
  have t'': "cpufreq_cpu_data ?s'' = cpufreq_cpu_data s"
    using t' kobject_put_frame [of s' a] by (simp add: module_put_def split: option.splits)
  show "\<exists>drv. cpufreq_driver s = Some drv
               \<and> c < nr_cpu_ids s \<and> cpufreq_cpu_data s c = Some a
               \<and> policy_mem s' = (policy_mem s)(a \<mapsto> p\<lparr>kobj := kobj p + 1\<rparr>)
               \<and> (\<forall>m. owner_d drv = Some m \<longrightarrow>
                      module_refcnt s' = (module_refcnt s)(m := module_refcnt s m + 1))
               \<and> (\<exists>s''. cpufreq_cpu_put s' a = Some s''
                      \<and> map_option kobj (policy_mem s'' a) = Some (kobj p)
                      \<and> module_refcnt s'' = module_refcnt s
                      \<and> cpufreq_cpu_data s'' = cpufreq_cpu_data s)"
    using drv c tab mem' refs' put k'' r'' t'' by blast
qed

text \<open>
  The sample system: CPU 3 has no policy, CPU 9 does not exist, and without a driver no
  policy is handed out; a \<open>get\<close> for CPU 0 raises the two counts by one and the \<open>put\<close>
  lowers them again.
\<close>

theorem cpu_get_put_references_witness:
  "cpufreq_cpu_get sample_state 3 = (None, sample_state)
   \<and> cpufreq_cpu_get (sample_state\<lparr>cpufreq_driver := None\<rparr>) 0 = (None, sample_state\<lparr>cpufreq_driver := None\<rparr>)
   \<and> cpufreq_cpu_get sample_state 9 = (None, sample_state)
   \<and> (\<exists>s' s''. cpufreq_cpu_get sample_state 0 = (Some 7, s')
         \<and> map_option kobj (policy_mem s' 7) = Some 4 \<and> module_refcnt s' 0 = 2
         \<and> cpufreq_cpu_put s' 7 = Some s''
         \<and> map_option kobj (policy_mem s'' 7) = Some 3 \<and> module_refcnt s'' 0 = 1)"
proof -
  obtain r3 t3 where g3: "cpufreq_cpu_get sample_state 3 = (r3, t3)" by (cases "cpufreq_cpu_get sample_state 3")
  have "cpufreq_cpu_data sample_state 3 = None" by (simp add: sample_defs)
  with cpu_get_put_references [OF g3] have a: "cpufreq_cpu_get sample_state 3 = (None, sample_state)"
    using g3 by simp
  let ?n = "sample_state\<lparr>cpufreq_driver := None\<rparr>"
  obtain rn tn where gn: "cpufreq_cpu_get ?n 0 = (rn, tn)" by (cases "cpufreq_cpu_get ?n 0")
  from cpu_get_put_references [OF gn] have b: "cpufreq_cpu_get ?n 0 = (None, ?n)"
    using gn by simp
  obtain r9 t9 where g9: "cpufreq_cpu_get sample_state 9 = (r9, t9)" by (cases "cpufreq_cpu_get sample_state 9")
  have "nr_cpu_ids sample_state \<le> 9" by (simp add: sample_defs)
  with cpu_get_put_references [OF g9] have c: "cpufreq_cpu_get sample_state 9 = (None, sample_state)"
    using g9 by simp
  obtain s' where g0: "cpufreq_cpu_get sample_state 0 = (Some 7, s')"
    by (simp add: cpufreq_cpu_get_def try_module_get_def sample_defs)
  have mem: "policy_mem sample_state 7 = Some sample_policy" by (simp add: sample_defs)
  have drv: "cpufreq_driver sample_state = Some sample_driver" "owner_d sample_driver = Some 0"
    by (simp_all add: sample_defs)
  from cpu_get_put_references [OF g0] mem drv
  obtain s'' where "policy_mem s' = (policy_mem sample_state)(7 \<mapsto> sample_policy\<lparr>kobj := kobj sample_policy + 1\<rparr>)"
    "module_refcnt s' = (module_refcnt sample_state)(0 := module_refcnt sample_state 0 + 1)"
    "cpufreq_cpu_put s' 7 = Some s''"
    "map_option kobj (policy_mem s'' 7) = Some (kobj sample_policy)"
    "module_refcnt s'' = module_refcnt sample_state"
    by auto
  then have d: "map_option kobj (policy_mem s' 7) = Some 4 \<and> module_refcnt s' 0 = 2
         \<and> cpufreq_cpu_put s' 7 = Some s''
         \<and> map_option kobj (policy_mem s'' 7) = Some 3 \<and> module_refcnt s'' 0 = 1"
    by (simp add: sample_defs)
  from a b c g0 d show ?thesis by blast
qed

subsection \<open>The POSTCHANGE phase\<close>

text \<open>
  C6, as the specification states it, has the policy attached to the event's CPU end with
  \<open>cur = new\<close> if and only if the CPU has a policy and owns it. The "only if" fails for
  a CPU that shares a policy it does not own when \<open>cur\<close> of that policy is \<open>new\<close>
  already, which is how the POSTCHANGE for the owner leaves it. In the sample system CPU 1
  shares the policy of CPU 0, whose \<open>cur\<close> is 1000000: a POSTCHANGE for CPU 1 with
  \<open>new = 1000000\<close> changes nothing, and the policy attached to CPU 1 has \<open>cur = new\<close>.
\<close>

theorem postchange_sibling_counterexample:
  "cpufreq_cpu_data sample_state 1 = Some 7
   \<and> map_option cpu (policy_mem sample_state 7) = Some 0
   \<and> cpufreq_notify_transition sample_state
         \<lparr>f_cpu = 1, f_old = 800000, f_new = 1000000, f_flags = 0\<rparr> CPUFREQ_POSTCHANGE
       = Some (log_event sample_state
                 (TransitionNotifier CPUFREQ_POSTCHANGE
                    \<lparr>f_cpu = 1, f_old = 800000, f_new = 1000000, f_flags = 0\<rparr>),
               \<lparr>f_cpu = 1, f_old = 800000, f_new = 1000000, f_flags = 0\<rparr>)
   \<and> map_option cur
         (policy_mem
            (log_event sample_state
               (TransitionNotifier CPUFREQ_POSTCHANGE
                  \<lparr>f_cpu = 1, f_old = 800000, f_new = 1000000, f_flags = 0\<rparr>)) 7)
       = Some 1000000"
  by (simp add: notify_postchange log_event_def sample_defs)

text \<open>
  C6, amended. When \<open>cpufreq_notify_transition\<close> delivers POSTCHANGE for a record with
  \<open>cpu\<close>, \<open>old\<close> and \<open>new\<close>, the subscribers get the record, and the call sets
  \<open>cur\<close> of the policy attached to that CPU to \<open>new\<close> exactly when there is such a
  policy and the CPU is its owner; for a CPU that is not the owner of its policy, and for
  a CPU without a policy, no policy is changed, so \<open>cur\<close> keeps the value it had.
\<close>

theorem postchange_updates_owner_only:
  assumes "cpufreq_notify_transition s freqs CPUFREQ_POSTCHANGE = Some (s', freqs')"
  shows "trace s' = trace s @ [TransitionNotifier CPUFREQ_POSTCHANGE freqs']
       \<and> f_cpu freqs' = f_cpu freqs \<and> f_old freqs' = f_old freqs \<and> f_new freqs' = f_new freqs
       \<and> (case cpufreq_cpu_data s (f_cpu freqs) of
            None \<Rightarrow> policy_mem s' = policy_mem s
          | Some a \<Rightarrow>
              (\<exists>p. policy_mem s a = Some p
                  \<and> (if cpu p = f_cpu freqs
                     then policy_mem s' = (policy_mem s)(a \<mapsto> p\<lparr>cur := f_new freqs\<rparr>)
                     else policy_mem s' = policy_mem s)))"
proof -
  from assms have irq: "\<not> irqs_disabled s"
    by (simp add: notify_postchange split: if_splits)
  with assms obtain drv where drv: "cpufreq_driver s = Some drv"
    by (cases "cpufreq_driver s") (simp_all add: notify_postchange)
  let ?f = "freqs\<lparr>f_flags := flags drv\<rparr>"
  let ?s1 = "log_event s (TransitionNotifier CPUFREQ_POSTCHANGE ?f)"
  show ?thesis
  proof (cases "cpufreq_cpu_data s (f_cpu freqs)")
    case None
    with assms drv irq have "s' = ?s1" "freqs' = ?f"
      by (auto simp add: notify_postchange)
    then show ?thesis using None by (simp add: log_event_def)
  next
    case (Some a)
    with assms drv irq obtain p where p: "policy_mem s a = Some p"
      by (cases "policy_mem s a") (simp_all add: notify_postchange)
    show ?thesis
    proof (cases "cpu p = f_cpu freqs")
      case True
      with assms drv irq Some p
      have "s' = upd_policy ?s1 a (\<lambda>p. p\<lparr>cur := f_new freqs\<rparr>)" "freqs' = ?f"
        by (auto simp add: notify_postchange)
      then show ?thesis using Some p True by (simp add: log_event_def upd_policy_def)
    next
      case False
      with assms drv irq Some p have "s' = ?s1" "freqs' = ?f"
        by (auto simp add: notify_postchange)
      then show ?thesis using Some p False by (simp add: log_event_def)
    qed
  qed
qed

text \<open>
  The sample system: CPUs 0 and 1 share the policy that CPU 0 owns, CPU 3 has none. Only
  the POSTCHANGE for CPU 0 changes \<open>cur\<close>.
\<close>

theorem postchange_updates_owner_only_witness:
  "(\<exists>s' f'. cpufreq_notify_transition sample_state
               \<lparr>f_cpu = 0, f_old = 1000000, f_new = 800000, f_flags = 0\<rparr> CPUFREQ_POSTCHANGE = Some (s', f')
        \<and> policy_mem s' = (policy_mem sample_state)(7 \<mapsto> sample_policy\<lparr>cur := 800000\<rparr>))
   \<and> (\<exists>s' f'. cpufreq_notify_transition sample_state
               \<lparr>f_cpu = 1, f_old = 1000000, f_new = 800000, f_flags = 0\<rparr> CPUFREQ_POSTCHANGE = Some (s', f')
        \<and> policy_mem s' = policy_mem sample_state)
   \<and> (\<exists>s' f'. cpufreq_notify_transition sample_state
               \<lparr>f_cpu = 3, f_old = 1000000, f_new = 800000, f_flags = 0\<rparr> CPUFREQ_POSTCHANGE = Some (s', f')
        \<and> policy_mem s' = policy_mem sample_state)"
proof -
  let ?f = "\<lambda>c. \<lparr>f_cpu = c, f_old = 1000000, f_new = 800000, f_flags = 0\<rparr>"
  have mem: "policy_mem sample_state 7 = Some sample_policy" "cpu sample_policy = 0"
    by (simp_all add: sample_defs)
  have tab: "cpufreq_cpu_data sample_state 0 = Some 7" "cpufreq_cpu_data sample_state 1 = Some 7"
    "cpufreq_cpu_data sample_state 3 = None"
    by (simp_all add: sample_defs)
  obtain s0 f0 where n0: "cpufreq_notify_transition sample_state (?f 0) CPUFREQ_POSTCHANGE = Some (s0, f0)"
    by (simp add: notify_postchange sample_defs)
  obtain s1 f1 where n1: "cpufreq_notify_transition sample_state (?f 1) CPUFREQ_POSTCHANGE = Some (s1, f1)"
    by (simp add: notify_postchange sample_defs)
  obtain s3 f3 where n3: "cpufreq_notify_transition sample_state (?f 3) CPUFREQ_POSTCHANGE = Some (s3, f3)"
    by (simp add: notify_postchange sample_defs)
  from postchange_updates_owner_only [OF n0] mem tab
  have a: "policy_mem s0 = (policy_mem sample_state)(7 \<mapsto> sample_policy\<lparr>cur := 800000\<rparr>)" by simp
  from postchange_updates_owner_only [OF n1] mem tab
  have b: "policy_mem s1 = policy_mem sample_state" by simp
  from postchange_updates_owner_only [OF n3] mem tab
  have c: "policy_mem s3 = policy_mem sample_state" by simp
  from n0 n1 n3 a b c show ?thesis by blast
qed

subsection \<open>Out-of-sync detection\<close>

text \<open>
  C8, as the specification states it, has \<open>__cpufreq_get\<close> repair every difference
  between the driver's answer and \<open>cur\<close> while \<open>CPUFREQ_CONST_LOOPS\<close> is clear. The
  source also requires both values to be non-zero: in the sample system with a driver that
  answers 0, \<open>cur\<close> is 1000000, the flag is clear, and the call only asks the driver; it
  notifies nobody and queues no work.
\<close>

theorem get_zero_answer_counterexample:
  "map_option cur (policy_mem sample_silent 7) = Some 1000000
   \<and> map_option flags (cpufreq_driver sample_silent) = Some 0
   \<and> uu_cpufreq_get sample_silent 0 = Some (0, log_event sample_silent (DrvGet 0))
   \<and> pending_work (log_event sample_silent (DrvGet 0)) = []
   \<and> trace (log_event sample_silent (DrvGet 0)) = [DrvGet 0]"
  by (simp add: uu_cpufreq_get_def log_event_def sample_defs)

text \<open>
  C8, amended. When the frequency the driver reports for a CPU and \<open>cur\<close> of the CPU's
  policy are both non-zero and differ while \<open>CPUFREQ_CONST_LOOPS\<close> is clear,
  \<open>__cpufreq_get\<close> delivers one PRECHANGE and then one POSTCHANGE with \<open>old = cur\<close> and
  \<open>new\<close> the reported frequency, which sets \<open>cur\<close> if the CPU owns the policy, and
  then queues the deferred update of the policy.
\<close>

theorem get_out_of_sync:
  assumes drv: "cpufreq_driver s = Some drv" "get drv = Some f"
    and tab: "cpufreq_cpu_data s c = Some a" "policy_mem s a = Some policy"
    and irq: "\<not> irqs_disabled s"
    and obs: "f (trace s) c = freq" "freq \<noteq> 0" "cur policy \<noteq> 0" "freq \<noteq> cur policy"
    and cl: "(flags drv AND CPUFREQ_CONST_LOOPS) = 0"
    and fr: "fr = \<lparr>f_cpu = c, f_old = cur policy, f_new = freq, f_flags = flags drv\<rparr>"
  shows "\<exists>s'. uu_cpufreq_get s c = Some (freq, s')
           \<and> trace s' = trace s @ [DrvGet c, TransitionNotifier CPUFREQ_PRECHANGE fr,
                                   TransitionNotifier CPUFREQ_POSTCHANGE fr]
           \<and> pending_work s' = (if a \<in> set (pending_work s) then pending_work s
                                else pending_work s @ [a])
           \<and> policy_mem s' = (policy_mem s)(a \<mapsto> (if cpu policy = c then policy\<lparr>cur := freq\<rparr> else policy))"
proof -
  let ?s1 = "log_event s (DrvGet c)"
  have s1: "cpufreq_driver ?s1 = Some drv" "cpufreq_cpu_data ?s1 c = Some a"
    "policy_mem ?s1 a = Some policy" "\<not> irqs_disabled ?s1"
    using drv tab irq by (simp_all add: log_event_def)
  note oos = out_of_sync_events [OF s1(1) s1(2) s1(3) s1(4) fr]
  show ?thesis
    using drv tab obs cl
    by (simp add: uu_cpufreq_get_def Let_def s1 oos schedule_work_def)
       (simp add: log_event_def)
qed

text \<open>
  The sample system: \<open>cur\<close> is 1000000 and the driver reports 800000 for CPU 0, the
  owner of its policy.
\<close>

theorem get_out_of_sync_witness:
  "cpufreq_driver sample_state = Some sample_driver
   \<and> cpufreq_cpu_data sample_state 0 = Some 7 \<and> policy_mem sample_state 7 = Some sample_policy
   \<and> cur sample_policy = 1000000
   \<and> (\<exists>s'. uu_cpufreq_get sample_state 0 = Some (800000, s')
         \<and> trace s' = [DrvGet 0,
                        TransitionNotifier CPUFREQ_PRECHANGE
                          \<lparr>f_cpu = 0, f_old = 1000000, f_new = 800000, f_flags = 0\<rparr>,
                        TransitionNotifier CPUFREQ_POSTCHANGE
                          \<lparr>f_cpu = 0, f_old = 1000000, f_new = 800000, f_flags = 0\<rparr>]
         \<and> pending_work s' = [7]
         \<and> map_option cur (policy_mem s' 7) = Some 800000)"
proof -
  have drv: "cpufreq_driver sample_state = Some sample_driver" "get sample_driver = Some (\<lambda>t c. 800000)"
    by (simp_all add: sample_defs)
  have tab: "cpufreq_cpu_data sample_state 0 = Some 7" "policy_mem sample_state 7 = Some sample_policy"
    by (simp_all add: sample_defs)
  have irq: "\<not> irqs_disabled sample_state" by (simp add: sample_defs)
  have obs: "(\<lambda>t c. 800000) (trace sample_state) (0::nat) = (800000::u32)" "(800000::u32) \<noteq> 0"
    "cur sample_policy \<noteq> 0" "(800000::u32) \<noteq> cur sample_policy"
    by (simp_all add: sample_defs)
  have cl: "(flags sample_driver AND CPUFREQ_CONST_LOOPS) = 0" by (simp add: sample_defs)
  have c: "cur sample_policy = 1000000" by (simp add: sample_defs)
  from get_out_of_sync [OF drv tab irq obs cl refl]
  have "\<exists>s'. uu_cpufreq_get sample_state 0 = Some (800000, s')
         \<and> trace s' = [DrvGet 0,
                        TransitionNotifier CPUFREQ_PRECHANGE
                          \<lparr>f_cpu = 0, f_old = 1000000, f_new = 800000, f_flags = 0\<rparr>,
                        TransitionNotifier CPUFREQ_POSTCHANGE
                          \<lparr>f_cpu = 0, f_old = 1000000, f_new = 800000, f_flags = 0\<rparr>]
         \<and> pending_work s' = [7]
         \<and> map_option cur (policy_mem s' 7) = Some 800000"
    by (auto simp: sample_defs)
  with drv(1) tab c show ?thesis by blast
qed

subsection \<open>Attribute writes that fail validation\<close>

text \<open>
  C3. The specification has every attribute write that fails validation return its error
  to the caller and change no policy state, the user's limits included. The attribute
  writers depart from that in two places, each at odds with a neighbouring path of the
  file; the theorem states what the writers compute, for a policy that is attached at its
  owner CPU and holds a reference, with the driver registered and its module live.

  \<^item> \<open>store_one\<close> assigns \<open>policy->user_policy.object = new_policy.object\<close> whatever \<open>ret\<close>
    is (line 499), after the engine has put the caller's limits back into \<open>new_policy\<close>. A
    write of \<open>v\<close> to \<open>scaling_min_freq\<close> (\<open>scaling_max_freq\<close>) that the engine rejects
    during validation returns the engine's error code and leaves the policy table and every
    other field of every policy as they were, but \<open>v\<close> is now the user's minimum (maximum).
    \<open>store_scaling_governor\<close> stores the committed \<open>policy->policy\<close> and
    \<open>policy->governor\<close> instead (lines 572-573).

  \<^item> \<open>store_scaling_governor\<close> goes through the present CPUs, skips each CPU for which the
    name cannot be parsed, and returns \<open>count\<close> at the end: the write of an unknown governor
    name changes nothing and reports success. Text without a name returns \<open>-EINVAL\<close>, as
    does text that is not a number in \<open>store_one\<close>, and \<open>cpufreq_set_gov\<close> returns
    \<open>-EINVAL\<close> when the same parse fails (lines 2265-2268).
\<close>

theorem attribute_write_departures:
  assumes mem: "policy_mem s a = Some data"
    and tab: "cpufreq_cpu_data s (cpu data) = Some a"
    and held: "attached_held s" "kobj data \<noteq> 0"
    and range: "cpu data < nr_cpu_ids s"
    and drv: "cpufreq_driver s = Some drv"
    and pin: "fst (try_module_get s (owner_d drv))"
    and copy: "new_policy = data\<lparr>kobj := kobj data + 1\<rparr>"
  shows
    "(\<forall>v ret s2 p2.
        set_policy_validate s data (qos_clamp s data (new_policy\<lparr>min_p := v\<rparr>)) = Some (ret, s2, p2)
        \<and> ret \<noteq> 0 \<longrightarrow>
        store_scaling_min_freq s a (Some v) count
          = Some (ret,
                  s\<lparr>trace := trace s2,
                    policy_mem := (policy_mem s)
                      (a \<mapsto> data\<lparr>user_policy := (user_policy data)\<lparr>min_u := v\<rparr>\<rparr>)\<rparr>))
     \<and> (\<forall>v ret s2 p2.
        set_policy_validate s data (qos_clamp s data (new_policy\<lparr>max_p := v\<rparr>)) = Some (ret, s2, p2)
        \<and> ret \<noteq> 0 \<longrightarrow>
        store_scaling_max_freq s a (Some v) count
          = Some (ret,
                  s\<lparr>trace := trace s2,
                    policy_mem := (policy_mem s)
                      (a \<mapsto> data\<lparr>user_policy := (user_policy data)\<lparr>max_u := v\<rparr>\<rparr>)\<rparr>))
     \<and> store_scaling_min_freq s a None count = Some (- EINVAL, s)
     \<and> store_scaling_max_freq s a None count = Some (- EINVAL, s)
     \<and> (\<forall>str_governor. unknown_governor s str_governor \<longrightarrow>
           store_scaling_governor s a (Some str_governor) count = Some (count, s))
     \<and> store_scaling_governor s a None count = Some (- EINVAL, s)"
proof (intro conjI allI impI)
  fix v ret s2 p2
  assume "set_policy_validate s data (qos_clamp s data (new_policy\<lparr>min_p := v\<rparr>)) = Some (ret, s2, p2)
          \<and> ret \<noteq> 0"
  then have v: "set_policy_validate s data (qos_clamp s data (new_policy\<lparr>min_p := v\<rparr>))
                  = Some (ret, s2, p2)" and r: "ret \<noteq> 0"
    by simp_all
  have req: "new_policy\<lparr>min_p := v\<rparr> = (\<lambda>p v. p\<lparr>min_p := v\<rparr>) (data\<lparr>kobj := kobj data + 1\<rparr>) v"
    by (simp add: copy)
  from store_one_rejected [where put = "\<lambda>p v. p\<lparr>min_p := v\<rparr>" and obj = min_p
      and put_user = "\<lambda>u v. u\<lparr>min_u := v\<rparr>" and count = count, OF mem tab held(2) range drv pin req v r]
  show "store_scaling_min_freq s a (Some v) count
          = Some (ret,
                  s\<lparr>trace := trace s2,
                    policy_mem := (policy_mem s)
                      (a \<mapsto> data\<lparr>user_policy := (user_policy data)\<lparr>min_u := v\<rparr>\<rparr>)\<rparr>)"
    unfolding store_scaling_min_freq_def by simp
next
  fix v ret s2 p2
  assume "set_policy_validate s data (qos_clamp s data (new_policy\<lparr>max_p := v\<rparr>)) = Some (ret, s2, p2)
          \<and> ret \<noteq> 0"
  then have v: "set_policy_validate s data (qos_clamp s data (new_policy\<lparr>max_p := v\<rparr>))
                  = Some (ret, s2, p2)" and r: "ret \<noteq> 0"
    by simp_all
  have req: "new_policy\<lparr>max_p := v\<rparr> = (\<lambda>p v. p\<lparr>max_p := v\<rparr>) (data\<lparr>kobj := kobj data + 1\<rparr>) v"
    by (simp add: copy)
  from store_one_rejected [where put = "\<lambda>p v. p\<lparr>max_p := v\<rparr>" and obj = max_p
      and put_user = "\<lambda>u v. u\<lparr>max_u := v\<rparr>" and count = count, OF mem tab held(2) range drv pin req v r]
  show "store_scaling_max_freq s a (Some v) count
          = Some (ret,
                  s\<lparr>trace := trace s2,
                    policy_mem := (policy_mem s)
                      (a \<mapsto> data\<lparr>user_policy := (user_policy data)\<lparr>max_u := v\<rparr>\<rparr>)\<rparr>)"
    unfolding store_scaling_max_freq_def by simp
next
  show "store_scaling_min_freq s a None count = Some (- EINVAL, s)"
    unfolding store_scaling_min_freq_def by (rule store_one_unscanned [OF mem tab held(2)])
next
  show "store_scaling_max_freq s a None count = Some (- EINVAL, s)"
    unfolding store_scaling_max_freq_def by (rule store_one_unscanned [OF mem tab held(2)])
next
  fix str_governor
  assume "unknown_governor s str_governor"
  with held(1) show "store_scaling_governor s a (Some str_governor) count = Some (count, s)"
    by (rule store_governor_unknown)
next
  show "store_scaling_governor s a None count = Some (- EINVAL, s)"
    by (simp add: store_scaling_governor_def)
qed

text \<open>
  The sample system; the user's limits are 800000 and 2000000. No governor is called
  \<open>nosuch\<close> and no module provides one: the write of that name returns its length, 6. A
  minimum of 2500000 is above the user's maximum and is rejected by the range check with
  \<open>-EINVAL\<close>, and 2500000 is the user's minimum afterwards. A minimum of 900000, which
  the sample system accepts, is then refused: the engine finds the policy's maximum below
  the user's minimum.
\<close>

theorem attribute_write_departures_witness:
  "policy_mem sample_state 7 = Some sample_policy
   \<and> cpufreq_cpu_data sample_state (cpu sample_policy) = Some 7
   \<and> attached_held sample_state
   \<and> unknown_governor sample_state ''nosuch''
   \<and> store_scaling_governor sample_state 7 (Some ''nosuch'') 6 = Some (6, sample_state)
   \<and> store_scaling_governor sample_state 7 None 1 = Some (- EINVAL, sample_state)
   \<and> store_scaling_min_freq sample_state 7 None 4 = Some (- EINVAL, sample_state)
   \<and> min_u (user_policy sample_policy) = 800000
   \<and> max_u (user_policy sample_policy) = 2000000
   \<and> store_scaling_min_freq sample_state 7 (Some 2500000) 8
       = Some (- EINVAL,
               sample_state\<lparr>policy_mem := (policy_mem sample_state)
                 (7 \<mapsto> sample_policy\<lparr>user_policy := (user_policy sample_policy)\<lparr>min_u := 2500000\<rparr>\<rparr>)\<rparr>)
   \<and> store_scaling_max_freq sample_state 7 (Some 100000) 7
       = Some (- EINVAL,
               sample_state\<lparr>policy_mem := (policy_mem sample_state)
                 (7 \<mapsto> sample_policy\<lparr>user_policy := (user_policy sample_policy)\<lparr>max_u := 100000\<rparr>\<rparr>)\<rparr>)
   \<and> map_option fst (store_scaling_min_freq sample_state 7 (Some 900000) 7) = Some 7
   \<and> map_option fst
       (store_scaling_min_freq
          (sample_state\<lparr>policy_mem := (policy_mem sample_state)
             (7 \<mapsto> sample_policy\<lparr>user_policy := (user_policy sample_policy)\<lparr>min_u := 2500000\<rparr>\<rparr>)\<rparr>)
          7 (Some 900000) 7) = Some (- EINVAL)"
proof -
  have mem: "policy_mem sample_state 7 = Some sample_policy" by (simp add: sample_defs)
  have tab: "cpufreq_cpu_data sample_state (cpu sample_policy) = Some 7" by (simp add: sample_defs)
  have held: "kobj sample_policy \<noteq> 0" by (simp add: sample_defs)
  have range: "cpu sample_policy < nr_cpu_ids sample_state" by (simp add: sample_defs)
  have drv: "cpufreq_driver sample_state = Some sample_driver" by (simp add: sample_defs)
  have pin: "fst (try_module_get sample_state (owner_d sample_driver))"
    by (simp add: try_module_get_def sample_defs)
  have lim: "min_u (user_policy sample_policy) = 800000" "max_u (user_policy sample_policy) = 2000000"
    by (simp_all add: sample_defs)
  note T = attribute_write_departures [OF mem tab sample_held held range drv pin refl]
  have vmin:
    "set_policy_validate sample_state sample_policy
       (qos_clamp sample_state sample_policy (sample_policy\<lparr>kobj := kobj sample_policy + 1, min_p := 2500000\<rparr>))
       = Some (- EINVAL, sample_state,
               qos_clamp sample_state sample_policy
                 (sample_policy\<lparr>kobj := kobj sample_policy + 1, min_p := 2500000\<rparr>))"
    by (simp add: engine_defs sample_defs)
  have vmax:
    "set_policy_validate sample_state sample_policy
       (qos_clamp sample_state sample_policy (sample_policy\<lparr>kobj := kobj sample_policy + 1, max_p := 100000\<rparr>))
       = Some (- EINVAL, sample_state,
               qos_clamp sample_state sample_policy
                 (sample_policy\<lparr>kobj := kobj sample_policy + 1, max_p := 100000\<rparr>))"
    by (simp add: engine_defs sample_defs)
  have ne: "- EINVAL \<noteq> 0" by (simp add: EINVAL_def)
  from T [of 8] vmin ne
  have a: "store_scaling_min_freq sample_state 7 (Some 2500000) 8
       = Some (- EINVAL,
               sample_state\<lparr>policy_mem := (policy_mem sample_state)
                 (7 \<mapsto> sample_policy\<lparr>user_policy := (user_policy sample_policy)\<lparr>min_u := 2500000\<rparr>\<rparr>)\<rparr>)"
    by fastforce
  from T [of 7] vmax ne
  have b: "store_scaling_max_freq sample_state 7 (Some 100000) 7
       = Some (- EINVAL,
               sample_state\<lparr>policy_mem := (policy_mem sample_state)
                 (7 \<mapsto> sample_policy\<lparr>user_policy := (user_policy sample_policy)\<lparr>max_u := 100000\<rparr>\<rparr>)\<rparr>)"
    by fastforce
  from T [of 4] have c: "store_scaling_min_freq sample_state 7 None 4 = Some (- EINVAL, sample_state)"
    by blast
  from T [of 6] sample_unknown
  have d: "store_scaling_governor sample_state 7 (Some ''nosuch'') 6 = Some (6, sample_state)"
    by blast
  from T [of 1] have e: "store_scaling_governor sample_state 7 None 1 = Some (- EINVAL, sample_state)"
    by blast
  have f: "map_option fst (store_scaling_min_freq sample_state 7 (Some 900000) 7) = Some 7"
    by (simp add: store_scaling_min_freq_def store_one_def cpufreq_get_policy_def cpufreq_cpu_get_def
          cpufreq_cpu_put_def kobject_get_def kobject_put_def cpufreq_sysfs_release_def
          engine_defs sample_defs)
  have g: "map_option fst
       (store_scaling_min_freq
          (sample_state\<lparr>policy_mem := (policy_mem sample_state)
             (7 \<mapsto> sample_policy\<lparr>user_policy := (user_policy sample_policy)\<lparr>min_u := 2500000\<rparr>\<rparr>)\<rparr>)
          7 (Some 900000) 7) = Some (- EINVAL)"
    by (simp add: store_scaling_min_freq_def store_one_def cpufreq_get_policy_def cpufreq_cpu_get_def
          cpufreq_cpu_put_def kobject_get_def kobject_put_def cpufreq_sysfs_release_def
          engine_defs sample_defs)
  from mem tab sample_held sample_unknown a b c d e f g lim show ?thesis by blast
qed

subsection \<open>Attaching a CPU that has a policy\<close>

text \<open>
  C7, as the specification states it, has \<open>cpufreq_add_dev\<close> return success for every CPU
  that already has an entry in the policy table. The function finds the entry through
  \<open>cpufreq_cpu_get\<close>, which also pins the module of the driver; when the module cannot
  be pinned the entry is not seen, the pin of line 1324 fails as well, and the function returns
  \<open>-EINVAL\<close>. In the sample system with the driver's module being unloaded, CPU 0 has an
  entry and is online.
\<close>

theorem add_dev_unpinned_counterexample:
  "cpufreq_cpu_data sample_unloading 0 = Some 7
   \<and> 0 \<in> cpu_online_mask sample_unloading
   \<and> cpufreq_add_dev sample_unloading 0 = Some (Returned (- EINVAL) sample_unloading)"
  by (simp add: cpufreq_add_dev_def cpufreq_cpu_get_def try_module_get_def sample_defs)

text \<open>
  C7, amended. For a CPU within range that has an entry in the policy table, with a driver
  registered, \<open>cpufreq_add_dev\<close> returns without reaching the allocation of a policy and
  leaves the policy table and the set of allocated policies as they were, and so does a
  second call after it. It returns 0, except that for an online CPU whose driver's module
  cannot be pinned it returns \<open>-EINVAL\<close>.
\<close>

theorem add_dev_existing_entry:
  assumes drv: "cpufreq_driver s = Some drv"
    and tab: "cpufreq_cpu_data s c = Some a"
    and mem: "policy_mem s a = Some p"
    and range: "c < nr_cpu_ids s"
  shows "\<exists>r s'. cpufreq_add_dev s c = Some (Returned r s')
            \<and> r = (if c \<in> cpu_online_mask s \<and> \<not> fst (try_module_get s (owner_d drv))
                     then - EINVAL else 0)
            \<and> cpufreq_cpu_data s' = cpufreq_cpu_data s
            \<and> dom (policy_mem s') = dom (policy_mem s)
            \<and> (\<exists>r2 s''. cpufreq_add_dev s' c = Some (Returned r2 s'')
                   \<and> cpufreq_cpu_data s'' = cpufreq_cpu_data s'
                   \<and> dom (policy_mem s'') = dom (policy_mem s'))"
proof -
  from add_dev_head [OF assms]
  obtain s' where 1: "cpufreq_add_dev s c
                = Some (Returned (if c \<in> cpu_online_mask s \<and> \<not> fst (try_module_get s (owner_d drv))
                                  then - EINVAL else 0) s')"
    and t: "cpufreq_cpu_data s' = cpufreq_cpu_data s"
    and d: "dom (policy_mem s') = dom (policy_mem s)"
    and dr: "cpufreq_driver s' = cpufreq_driver s"
    and nr: "nr_cpu_ids s' = nr_cpu_ids s"
    by blast
  from d mem obtain p' where mem': "policy_mem s' a = Some p'" by (metis domD domI)
  from add_dev_head [of s' drv c a p'] dr drv t tab mem' nr range
  obtain s'' r2 where "cpufreq_add_dev s' c = Some (Returned r2 s'')"
    "cpufreq_cpu_data s'' = cpufreq_cpu_data s'" "dom (policy_mem s'') = dom (policy_mem s')"
    by auto
  with 1 t d show ?thesis by blast
qed

text \<open>The sample system: CPU 1 shares the policy of CPU 0.\<close>

theorem add_dev_existing_entry_witness:
  "cpufreq_driver sample_state = Some sample_driver
   \<and> cpufreq_cpu_data sample_state 1 = Some 7
   \<and> policy_mem sample_state 7 = Some sample_policy
   \<and> 1 < nr_cpu_ids sample_state
   \<and> (\<exists>s'. cpufreq_add_dev sample_state 1 = Some (Returned 0 s')
          \<and> cpufreq_cpu_data s' = cpufreq_cpu_data sample_state
          \<and> dom (policy_mem s') = dom (policy_mem sample_state)
          \<and> (\<exists>r2 s''. cpufreq_add_dev s' 1 = Some (Returned r2 s'')
                \<and> cpufreq_cpu_data s'' = cpufreq_cpu_data s'
                \<and> dom (policy_mem s'') = dom (policy_mem s')))"
proof -
  have drv: "cpufreq_driver sample_state = Some sample_driver" by (simp add: sample_defs)
  have tab: "cpufreq_cpu_data sample_state 1 = Some 7" by (simp add: sample_defs)
  have mem: "policy_mem sample_state 7 = Some sample_policy" by (simp add: sample_defs)
  have range: "1 < nr_cpu_ids sample_state" by (simp add: sample_defs)
  have pin: "fst (try_module_get sample_state (owner_d sample_driver))"
    by (simp add: try_module_get_def sample_defs)
  from add_dev_existing_entry [OF drv tab mem range] pin
  have "\<exists>s'. cpufreq_add_dev sample_state 1 = Some (Returned 0 s')
          \<and> cpufreq_cpu_data s' = cpufreq_cpu_data sample_state
          \<and> dom (policy_mem s') = dom (policy_mem sample_state)
          \<and> (\<exists>r2 s''. cpufreq_add_dev s' 1 = Some (Returned r2 s'')
                \<and> cpufreq_cpu_data s'' = cpufreq_cpu_data s'
                \<and> dom (policy_mem s'') = dom (policy_mem s'))"
    by auto
  with drv tab mem range show ?thesis by blast
qed

end
